theory Spec2Isabelle
  imports Main "HOL-Library.AList"
begin

section \<open>Python values and exceptions\<close>

text \<open>
  The weather service parses the JSON document of wttr.in into a tree of forecast
  objects (\<^verbatim>\<open>weather_util/forecast.py\<close>), fetches it over HTTP with a bounded retry
  (\<^verbatim>\<open>weather_util/client.py\<close>) and serves one tool (\<^verbatim>\<open>weather_server.py\<close>).

  A value decoded by \<^verbatim>\<open>json.loads\<close> is \<^verbatim>\<open>None\<close>, a bool, an int, a float, a str, a
  list or a dict with str keys. Floats stay abstract (the type variable \<open>'f\<close>): every
  operation on them is one of Python's and comes in as a parameter. A dict is an
  association list in insertion order; strings are lists of 8-bit characters, so the
  model covers ASCII text.
\<close>

datatype 'f json =
    JNull
  | JBool bool
  | JInt int
  | JFloat 'f
  | JStr string
  | JArr "'f json list"
  | JObj "(string \<times> 'f json) list"

text \<open>
  The built-in exceptions the parsing code can raise. \<open>KeyError\<close> carries the missing
  key (\<open>SKey\<close> a str key, \<open>IKey\<close> the int of \<^verbatim>\<open>d[0]\<close> on a dict); \<open>ValueError\<close> carries
  what its message is built from.
\<close>

datatype key = SKey string | IKey int

datatype verr =
    InvalidLiteralInt string
  | CouldNotConvertFloat string
  | TimeDataMismatch string string
  | UnconvertedData string
  | DateOutOfRange
  | Message string

datatype exn =
    KeyError key
  | IndexError
  | TypeError
  | AttributeError
  | StopIteration
  | OverflowError
  | ZeroDivisionError
  | ValueError verr

text \<open>Sequencing of statements that may raise: the first exception ends the block.\<close>

definition bnd :: "'e + 'a \<Rightarrow> ('a \<Rightarrow> 'e + 'b) \<Rightarrow> 'e + 'b" where
  "bnd m f = (case m of Inl e \<Rightarrow> Inl e | Inr x \<Rightarrow> f x)"

text \<open>A list comprehension \<^verbatim>\<open>[f(x) for x in xs]\<close>: left to right, stopping at the first
  exception.\<close>

fun comprehension :: "('a \<Rightarrow> 'e + 'b) \<Rightarrow> 'a list \<Rightarrow> 'e + 'b list" where
  "comprehension f [] = Inr []"
| "comprehension f (x # xs) =
     bnd (f x) (\<lambda>y. bnd (comprehension f xs) (\<lambda>ys. Inr (y # ys)))"

subsection \<open>Subscripts, membership, iteration\<close>

text \<open>\<^verbatim>\<open>v[k]\<close> with a str key \<open>k\<close>.\<close>

fun getitem :: "'f json \<Rightarrow> string \<Rightarrow> exn + 'f json" where
  "getitem (JObj kvs) k =
     (case map_of kvs k of None \<Rightarrow> Inl (KeyError (SKey k)) | Some v \<Rightarrow> Inr v)"
| "getitem _ k = Inl TypeError"

text \<open>\<^verbatim>\<open>v[0]\<close>: the first element of a list, the first character of a str; a dict
  decoded from JSON has no int key.\<close>

fun getitem0 :: "'f json \<Rightarrow> exn + 'f json" where
  "getitem0 (JArr xs) = (case xs of [] \<Rightarrow> Inl IndexError | x # _ \<Rightarrow> Inr x)"
| "getitem0 (JStr s) = (case s of [] \<Rightarrow> Inl IndexError | c # _ \<Rightarrow> Inr (JStr [c]))"
| "getitem0 (JObj kvs) = Inl (KeyError (IKey 0))"
| "getitem0 _ = Inl TypeError"

fun is_substring :: "string \<Rightarrow> string \<Rightarrow> bool" where
  "is_substring k [] = (k = [])"
| "is_substring k (c # cs) = (take (length k) (c # cs) = k \<or> is_substring k cs)"

text \<open>\<^verbatim>\<open>k in v\<close> for a str \<open>k\<close>: a key of a dict, an element of a list, a substring of
  a str.\<close>

fun contains :: "string \<Rightarrow> 'f json \<Rightarrow> exn + bool" where
  "contains k (JObj kvs) = Inr (k \<in> fst ` set kvs)"
| "contains k (JArr xs) = Inr (JStr k \<in> set xs)"
| "contains k (JStr s) = Inr (is_substring k s)"
| "contains k _ = Inl TypeError"

text \<open>The elements a \<^verbatim>\<open>for\<close> loop or \<^verbatim>\<open>filter\<close> sees: of a dict its keys, of a str its
  characters.\<close>

fun iter :: "'f json \<Rightarrow> exn + 'f json list" where
  "iter (JArr xs) = Inr xs"
| "iter (JObj kvs) = Inr (map (\<lambda>kv. JStr (fst kv)) kvs)"
| "iter (JStr s) = Inr (map (\<lambda>c. JStr [c]) s)"
| "iter _ = Inl TypeError"

fun len :: "'f json \<Rightarrow> exn + nat" where
  "len (JStr s) = Inr (length s)"
| "len (JArr xs) = Inr (length xs)"
| "len (JObj kvs) = Inr (length kvs)"
| "len _ = Inl TypeError"

text \<open>\<^verbatim>\<open>isinstance(v, dict)\<close>, \<^verbatim>\<open>k in v\<close> for a dict \<open>v\<close>, and the value a dict holds under
  a key, if it holds one.\<close>

fun is_dict :: "'f json \<Rightarrow> bool" where
  "is_dict (JObj kvs) = True"
| "is_dict _ = False"

fun has_key :: "'f json \<Rightarrow> string \<Rightarrow> bool" where
  "has_key (JObj kvs) k = (k \<in> fst ` set kvs)"
| "has_key _ k = False"

fun entry :: "'f json \<Rightarrow> string \<Rightarrow> 'f json option" where
  "entry (JObj kvs) k = map_of kvs k"
| "entry _ k = None"

subsection \<open>Characters, \<^verbatim>\<open>str.strip\<close>, \<^verbatim>\<open>str.lower\<close>\<close>

definition is_digit :: "char \<Rightarrow> bool" where
  "is_digit c = (c \<in> set ''0123456789'')"

definition digit_val :: "char \<Rightarrow> nat" where
  "digit_val c =
     (case map_of (zip ''0123456789'' [0, 1, 2, 3, 4, 5, 6, 7, 8, 9]) c of
        None \<Rightarrow> 0 | Some n \<Rightarrow> n)"

text \<open>The ASCII characters for which \<^verbatim>\<open>str.isspace\<close> holds: tab, line feed, vertical
  tab, form feed, carriage return, the four separators 0x1C to 0x1F, and the space.\<close>

definition is_space :: "char \<Rightarrow> bool" where
  "is_space c = (c \<in> set [CHR 0x09, CHR 0x0A, CHR 0x0B, CHR 0x0C, CHR 0x0D,
                           CHR 0x1C, CHR 0x1D, CHR 0x1E, CHR 0x1F, CHR '' ''])"

definition strip :: "string \<Rightarrow> string" where
  "strip s = rev (dropWhile is_space (rev (dropWhile is_space s)))"

definition lower_char :: "char \<Rightarrow> char" where
  "lower_char c =
     (case map_of (zip ''ABCDEFGHIJKLMNOPQRSTUVWXYZ'' ''abcdefghijklmnopqrstuvwxyz'') c of
        None \<Rightarrow> c | Some d \<Rightarrow> d)"

definition lower :: "string \<Rightarrow> string" where
  "lower s = map lower_char s"

subsection \<open>\<^verbatim>\<open>int()\<close>\<close>

text \<open>
  \<^verbatim>\<open>int(s)\<close> on a str: surrounding whitespace is dropped, then comes an optional sign and
  decimal digits, where single underscores may stand between digits. \<open>limit\<close> is
  \<^verbatim>\<open>sys.get_int_max_str_digits()\<close>: with a positive limit, more digits than that raise
  \<open>ValueError\<close>.
\<close>

fun py_digits :: "int \<Rightarrow> string \<Rightarrow> int option" where
  "py_digits acc [] = Some acc"
| "py_digits acc (c # cs) =
     (if is_digit c then py_digits (10 * acc + int (digit_val c)) cs
      else if c = CHR ''_'' \<and> cs \<noteq> [] \<and> is_digit (hd cs) then py_digits acc cs
      else None)"

definition unsigned_literal :: "string \<Rightarrow> int option" where
  "unsigned_literal s =
     (case s of [] \<Rightarrow> None | c # cs \<Rightarrow> if is_digit c then py_digits 0 (c # cs) else None)"

definition int_of_str :: "nat \<Rightarrow> string \<Rightarrow> exn + int" where
  "int_of_str limit s =
     (let t = strip s;
          neg = (t \<noteq> [] \<and> hd t = CHR ''-'');
          body = (if t \<noteq> [] \<and> hd t \<in> set ''+-'' then tl t else t)
      in case unsigned_literal body of
           None \<Rightarrow> Inl (ValueError (InvalidLiteralInt s))
         | Some n \<Rightarrow>
             if 0 < limit \<and> limit < length (filter is_digit body)
             then Inl (ValueError (Message ''Exceeds the limit for integer string conversion''))
             else Inr (if neg then - n else n))"

subsection \<open>\<^verbatim>\<open>datetime.strptime\<close>\<close>

text \<open>
  \<^verbatim>\<open>strptime\<close> turns the format into a regular expression, matches it at the start of
  the string (a backtracking match: the first alternative that lets the rest match
  wins), raises \<open>ValueError\<close> when nothing matches or when characters remain, and then
  builds the value. A matcher returns every way to match a prefix, best first, with
  what it read and the rest of the string. The expressions are CPython's, in the C
  locale:
  \<^verbatim>\<open>%H\<close> is \<^verbatim>\<open>2[0-3]|[0-1]\d|\d\<close>, \<^verbatim>\<open>%M\<close> is \<^verbatim>\<open>[0-5]\d|\d\<close>,
  \<^verbatim>\<open>%I\<close> and \<^verbatim>\<open>%m\<close> are \<^verbatim>\<open>1[0-2]|0[1-9]|[1-9]\<close>,
  \<^verbatim>\<open>%d\<close> is \<^verbatim>\<open>3[0-1]|[1-2]\d|0[1-9]|[1-9]| [1-9]\<close>, \<^verbatim>\<open>%Y\<close> is \<^verbatim>\<open>\d\d\d\d\<close>,
  \<^verbatim>\<open>%p\<close> is \<^verbatim>\<open>am|pm\<close> without regard to case, and a space of the format is \<^verbatim>\<open>\s+\<close>.
\<close>

datatype pytime = Time nat nat

datatype pydate = Date nat nat nat

datatype pydatetime = DateTime nat nat nat nat nat

type_synonym 'a matcher = "string \<Rightarrow> ('a \<times> string) list"

definition alt2 :: "(char \<Rightarrow> char \<Rightarrow> bool) \<Rightarrow> nat matcher" where
  "alt2 P s =
     (case s of a # b # r \<Rightarrow> if P a b then [(10 * digit_val a + digit_val b, r)] else []
      | _ \<Rightarrow> [])"

definition alt1 :: "(char \<Rightarrow> bool) \<Rightarrow> nat matcher" where
  "alt1 P s = (case s of a # r \<Rightarrow> if P a then [(digit_val a, r)] else [] | [] \<Rightarrow> [])"

definition rx_H :: "nat matcher" where
  "rx_H s = alt2 (\<lambda>a b. a = CHR ''2'' \<and> b \<in> set ''0123'') s
          @ alt2 (\<lambda>a b. a \<in> set ''01'' \<and> is_digit b) s
          @ alt1 is_digit s"

definition rx_M :: "nat matcher" where
  "rx_M s = alt2 (\<lambda>a b. a \<in> set ''012345'' \<and> is_digit b) s @ alt1 is_digit s"

definition rx_I :: "nat matcher" where
  "rx_I s = alt2 (\<lambda>a b. a = CHR ''1'' \<and> b \<in> set ''012'') s
          @ alt2 (\<lambda>a b. a = CHR ''0'' \<and> b \<in> set ''123456789'') s
          @ alt1 (\<lambda>a. a \<in> set ''123456789'') s"

definition rx_m :: "nat matcher" where
  "rx_m s = rx_I s"

definition rx_d :: "nat matcher" where
  "rx_d s = alt2 (\<lambda>a b. a = CHR ''3'' \<and> b \<in> set ''01'') s
          @ alt2 (\<lambda>a b. a \<in> set ''12'' \<and> is_digit b) s
          @ alt2 (\<lambda>a b. a = CHR ''0'' \<and> b \<in> set ''123456789'') s
          @ alt1 (\<lambda>a. a \<in> set ''123456789'') s
          @ alt2 (\<lambda>a b. a = CHR '' '' \<and> b \<in> set ''123456789'') s"

definition rx_Y :: "nat matcher" where
  "rx_Y s =
     (case s of a # b # c # d # r \<Rightarrow>
        if is_digit a \<and> is_digit b \<and> is_digit c \<and> is_digit d
        then [(1000 * digit_val a + 100 * digit_val b + 10 * digit_val c + digit_val d, r)]
        else []
      | _ \<Rightarrow> [])"

definition rx_lit :: "char \<Rightarrow> unit matcher" where
  "rx_lit c s = (case s of a # r \<Rightarrow> if a = c then [((), r)] else [] | [] \<Rightarrow> [])"

text \<open>\<^verbatim>\<open>\s+\<close> is greedy: the longest run of whitespace first, then shorter ones.\<close>

definition rx_ws :: "unit matcher" where
  "rx_ws s = map (\<lambda>k. ((), drop k s)) (rev [1 ..< Suc (length (takeWhile is_space s))])"

text \<open>\<^verbatim>\<open>%p\<close>: \<open>False\<close> for AM, \<open>True\<close> for PM.\<close>

definition rx_p :: "bool matcher" where
  "rx_p s =
     (case s of a # b # r \<Rightarrow>
        if lower_char a = CHR ''a'' \<and> lower_char b = CHR ''m'' then [(False, r)]
        else if lower_char a = CHR ''p'' \<and> lower_char b = CHR ''m'' then [(True, r)]
        else []
      | _ \<Rightarrow> [])"

definition rx_then :: "'a matcher \<Rightarrow> ('a \<Rightarrow> 'b matcher) \<Rightarrow> 'b matcher" where
  "rx_then p q s = concat (map (\<lambda>(x, r). q x r) (p s))"

definition rx_ret :: "'a \<Rightarrow> 'a matcher" where
  "rx_ret x s = [(x, s)]"

text \<open>The match and the two checks \<^verbatim>\<open>strptime\<close> makes on it.\<close>

definition rx_match :: "'a matcher \<Rightarrow> string \<Rightarrow> string \<Rightarrow> exn + 'a" where
  "rx_match p fmt s =
     (case p s of
        [] \<Rightarrow> Inl (ValueError (TimeDataMismatch s fmt))
      | (x, r) # _ \<Rightarrow> if r = [] then Inr x else Inl (ValueError (UnconvertedData r)))"

text \<open>The hour of a 12-hour clock: 12 AM is 0, 12 PM is 12.\<close>

definition hour12 :: "nat \<Rightarrow> bool \<Rightarrow> nat" where
  "hour12 h pm = (if pm then (if h = 12 then 12 else h + 12) else (if h = 12 then 0 else h))"

definition rx_HM :: "pytime matcher" where
  "rx_HM = rx_then rx_H (\<lambda>h. rx_then rx_M (\<lambda>m. rx_ret (Time h m)))"

definition rx_IMp :: "pytime matcher" where
  "rx_IMp =
     rx_then rx_I (\<lambda>h. rx_then (rx_lit CHR '':'') (\<lambda>_. rx_then rx_M (\<lambda>m.
     rx_then rx_ws (\<lambda>_. rx_then rx_p (\<lambda>pm. rx_ret (Time (hour12 h pm) m))))))"

definition rx_Ymd :: "pydate matcher" where
  "rx_Ymd =
     rx_then rx_Y (\<lambda>y. rx_then (rx_lit CHR ''-'') (\<lambda>_. rx_then rx_m (\<lambda>m.
     rx_then (rx_lit CHR ''-'') (\<lambda>_. rx_then rx_d (\<lambda>d. rx_ret (Date y m d))))))"

definition rx_Ymd_IMp :: "(pydate \<times> pytime) matcher" where
  "rx_Ymd_IMp = rx_then rx_Ymd (\<lambda>d. rx_then rx_ws (\<lambda>_. rx_then rx_IMp (\<lambda>t. rx_ret (d, t))))"

definition leap_year :: "nat \<Rightarrow> bool" where
  "leap_year y = (y mod 4 = 0 \<and> (y mod 100 \<noteq> 0 \<or> y mod 400 = 0))"

definition days_in_month :: "nat \<Rightarrow> nat \<Rightarrow> nat" where
  "days_in_month y m =
     (if m = 2 then (if leap_year y then 29 else 28)
      else if m \<in> {4, 6, 9, 11} then 30 else 31)"

text \<open>\<^verbatim>\<open>strptime\<close> builds a \<^verbatim>\<open>date\<close> from what it read, which raises \<open>ValueError\<close> for
  year 0 and for a day the month does not have.\<close>

definition check_date :: "pydate \<Rightarrow> exn + pydate" where
  "check_date dt =
     (case dt of Date y m d \<Rightarrow>
        if 1 \<le> y \<and> d \<le> days_in_month y m then Inr dt else Inl (ValueError DateOutOfRange))"

text \<open>The four calls of the source, each on a value that need not be a str.\<close>

fun strptime_HM :: "'f json \<Rightarrow> exn + pytime" where
  "strptime_HM (JStr s) = rx_match rx_HM ''%H%M'' s"
| "strptime_HM _ = Inl TypeError"

fun strptime_IMp :: "'f json \<Rightarrow> exn + pytime" where
  "strptime_IMp (JStr s) = rx_match rx_IMp ''%I:%M %p'' s"
| "strptime_IMp _ = Inl TypeError"

fun strptime_Ymd :: "'f json \<Rightarrow> exn + pydate" where
  "strptime_Ymd (JStr s) = bnd (rx_match rx_Ymd ''%Y-%m-%d'' s) check_date"
| "strptime_Ymd _ = Inl TypeError"

fun strptime_Ymd_IMp :: "'f json \<Rightarrow> exn + pydatetime" where
  "strptime_Ymd_IMp (JStr s) =
     bnd (rx_match rx_Ymd_IMp ''%Y-%m-%d %I:%M %p'' s) (\<lambda>(d, t).
     bnd (check_date d) (\<lambda>_.
       case (d, t) of (Date y m dd, Time h mi) \<Rightarrow> Inr (DateTime y m dd h mi)))"
| "strptime_Ymd_IMp _ = Inl TypeError"

text \<open>\<^verbatim>\<open>date.strftime('%Y-%m-%d')\<close>, for the years from 1000 on, where every platform
  prints four digits.\<close>

definition dec_digit :: "nat \<Rightarrow> char" where
  "dec_digit n = ''0123456789'' ! (n mod 10)"

definition pad2 :: "nat \<Rightarrow> string" where
  "pad2 n = [dec_digit (n div 10), dec_digit n]"

definition strftime_Ymd :: "pydate \<Rightarrow> string" where
  "strftime_Ymd dt =
     (case dt of Date y m d \<Rightarrow>
        pad2 (y div 100) @ pad2 y @ ''-'' @ pad2 m @ ''-'' @ pad2 d)"

section \<open>What the source imports\<close>

text \<open>
  \<^verbatim>\<open>weather_util/enums.py\<close> and \<^verbatim>\<open>weather_util/constants.py\<close> are not part of the
  sources at hand, and floats, \<^verbatim>\<open>json\<close>, \<^verbatim>\<open>urllib\<close> and \<^verbatim>\<open>httpx\<close> are Python's. What the
  code takes from them is collected in one record of parameters, \<open>env\<close>; every
  function of the model takes it first.
\<close>

text \<open>\<^verbatim>\<open>constants._Unit\<close>: the suffixes that select the keys of the payload, and the
  divisor of the snowfall.\<close>

record 'f Unit =
  unit_temperature :: string
  unit_precipitation :: string
  unit_pressure :: string
  unit_visibility :: string
  unit_velocity :: string
  unit_cm_divisor :: 'f

text \<open>Modelled from the spec: \<^verbatim>\<open>enums.Locale\<close> is missing; it is an enum over the
  supported language codes, "en" is English, and the other locales select the
  description under \<^verbatim>\<open>lang_<code>\<close>.\<close>

datatype Locale = ENGLISH | LANG string

fun locale_value :: "Locale \<Rightarrow> string" where
  "locale_value ENGLISH = ''en''"
| "locale_value (LANG c) = c"

text \<open>A response of \<^verbatim>\<open>httpx\<close>: the status, the decoded body (\<^verbatim>\<open>response.text\<close>) and the
  raw bytes.\<close>

record response =
  status_code :: nat
  response_text :: string
  content :: string

text \<open>The exceptions that reach the \<^verbatim>\<open>except\<close> clauses of the client: the two of
  \<^verbatim>\<open>httpx\<close> the code names, and the built-in ones.\<close>

datatype pyexn =
    HTTPStatusError response
  | RequestError string
  | RuntimeError string
  | Builtin exn

text \<open>What \<^verbatim>\<open>json.dumps\<close> is given: ints, strs, lists and dicts, and the one attribute
  whose type the sources at hand do not fix (\<open>'i\<close>).\<close>

datatype 'i pyval =
    PInt int
  | PStr string
  | PAttr 'i
  | PList "'i pyval list"
  | PDict "(string \<times> 'i pyval) list"

record ('f, 'k, 'w, 'u, 'h, 'p, 'i) env =
  \<comment> \<open>Python: \<^verbatim>\<open>content.decode('utf-8')\<close> then \<^verbatim>\<open>json.loads\<close>; \<^verbatim>\<open>float(str)\<close>, \<^verbatim>\<open>float(int)\<close>,
      \<^verbatim>\<open>int(float)\<close>, \<^verbatim>\<open>float / float\<close>; the digit limit of \<^verbatim>\<open>int(str)\<close>\<close>
  loads :: "string \<Rightarrow> exn + 'f json"
  float_of_str :: "string \<Rightarrow> 'f option"
  float_of_int :: "int \<Rightarrow> 'f option"
  int_of_float :: "'f \<Rightarrow> exn + int"
  truediv :: "'f \<Rightarrow> 'f \<Rightarrow> exn + 'f"
  int_max_str_digits :: nat
  \<comment> \<open>\<^verbatim>\<open>enums.py\<close>: the constructors and the attributes the server reads\<close>
  UltraViolet_new :: "int \<Rightarrow> exn + 'u"
  WindDirection_new :: "'f json \<Rightarrow> int \<Rightarrow> exn + 'w"
  Kind :: "int \<Rightarrow> exn + 'k"
  HeatIndex_new :: "int \<Rightarrow> int \<Rightarrow> exn + 'h"
  Phase :: "'f json \<Rightarrow> exn + 'p"
  locale_codes :: "string list"
  kind_emoji :: "'k \<Rightarrow> string"
  wind_direction_value :: "'w \<Rightarrow> string"
  wind_direction_emoji :: "'w \<Rightarrow> string"
  ultraviolet_index :: "'u \<Rightarrow> 'i"
  \<comment> \<open>\<^verbatim>\<open>constants.py\<close>: the two unit systems and the groups 1 and 2 of a match of
      \<^verbatim>\<open>LATLON_REGEX\<close> (\<open>None\<close> for a group that took no part)\<close>
  METRIC :: "'f Unit"
  IMPERIAL :: "'f Unit"
  LATLON_REGEX_match :: "string \<Rightarrow> (string option \<times> string option) option"
  \<comment> \<open>\<^verbatim>\<open>urllib.parse.quote_plus\<close>, \<^verbatim>\<open>json.dumps(_, indent=2)\<close>, \<^verbatim>\<open>str(e)\<close>, and whether
      \<^verbatim>\<open>raise_for_status\<close> raises for a status that is neither 2xx nor 4xx/5xx\<close>
  quote_plus :: "string \<Rightarrow> string"
  dumps :: "'i pyval \<Rightarrow> exn + string"
  str_of_exn :: "pyexn \<Rightarrow> string"
  raises_outside_2xx :: bool

definition Locale_new :: "('f, 'k, 'w, 'u, 'h, 'p, 'i) env \<Rightarrow> string \<Rightarrow> exn + Locale" where
  "Locale_new env c =
     (if c = ''en'' then Inr ENGLISH
      else if c \<in> set (locale_codes env) then Inr (LANG c)
      else Inl (ValueError (Message (c @ '' is not a valid Locale''))))"

subsection \<open>\<^verbatim>\<open>int()\<close> and \<^verbatim>\<open>float()\<close> on a decoded value\<close>

fun py_int :: "('f, 'k, 'w, 'u, 'h, 'p, 'i) env \<Rightarrow> 'f json \<Rightarrow> exn + int" where
  "py_int env (JInt n) = Inr n"
| "py_int env (JBool b) = Inr (if b then 1 else 0)"
| "py_int env (JFloat x) = int_of_float env x"
| "py_int env (JStr s) = int_of_str (int_max_str_digits env) s"
| "py_int env _ = Inl TypeError"

definition float_str :: "('f, 'k, 'w, 'u, 'h, 'p, 'i) env \<Rightarrow> string \<Rightarrow> exn + 'f" where
  "float_str env s =
     (case float_of_str env s of
        None \<Rightarrow> Inl (ValueError (CouldNotConvertFloat s)) | Some x \<Rightarrow> Inr x)"

definition float_int :: "('f, 'k, 'w, 'u, 'h, 'p, 'i) env \<Rightarrow> int \<Rightarrow> exn + 'f" where
  "float_int env n = (case float_of_int env n of None \<Rightarrow> Inl OverflowError | Some x \<Rightarrow> Inr x)"

fun py_float :: "('f, 'k, 'w, 'u, 'h, 'p, 'i) env \<Rightarrow> 'f json \<Rightarrow> exn + 'f" where
  "py_float env (JFloat x) = Inr x"
| "py_float env (JInt n) = float_int env n"
| "py_float env (JBool b) = float_int env (if b then 1 else 0)"
| "py_float env (JStr s) = float_str env s"
| "py_float env _ = Inl TypeError"

text \<open>\<^verbatim>\<open>int(json[k])\<close> and \<^verbatim>\<open>float(json[k])\<close>.\<close>

definition int_at :: "('f, 'k, 'w, 'u, 'h, 'p, 'i) env \<Rightarrow> 'f json \<Rightarrow> string \<Rightarrow> exn + int" where
  "int_at env json k = bnd (getitem json k) (py_int env)"

definition float_at :: "('f, 'k, 'w, 'u, 'h, 'p, 'i) env \<Rightarrow> 'f json \<Rightarrow> string \<Rightarrow> exn + 'f" where
  "float_at env json k = bnd (getitem json k) (py_float env)"

text \<open>\<^verbatim>\<open>v.strip()\<close>: only a str has the method.\<close>

fun py_strip :: "'f json \<Rightarrow> exn + string" where
  "py_strip (JStr s) = Inr (strip s)"
| "py_strip _ = Inl AttributeError"

section \<open>The forecast model (\<^verbatim>\<open>forecast.py\<close>)\<close>

subsection \<open>\<^verbatim>\<open>BaseForecast\<close>\<close>

record ('f, 'k, 'w, 'u) base_forecast =
  ultraviolet :: 'u
  humidity :: int
  wind_direction :: 'w
  kind :: 'k
  feels_like :: int
  temperature :: int
  precipitation :: 'f
  pressure :: 'f
  visibility :: int
  wind_speed :: int
  description :: string

text \<open>\<^verbatim>\<open>json[k][0]['value']\<close>\<close>

definition first_value :: "'f json \<Rightarrow> string \<Rightarrow> exn + 'f json" where
  "first_value json k = bnd (getitem json k) (\<lambda>a. bnd (getitem0 a) (\<lambda>d. getitem d ''value''))"

text \<open>\<^verbatim>\<open>json['weatherDesc'][0]['value']\<close> for English, \<^verbatim>\<open>json[f'lang_{locale.value}'][0]['value']\<close>
  otherwise.\<close>

definition description_of :: "'f json \<Rightarrow> Locale \<Rightarrow> exn + 'f json" where
  "description_of json locale =
     (if locale = ENGLISH then first_value json ''weatherDesc''
      else first_value json (''lang_'' @ locale_value locale))"

definition BaseForecast_init ::
  "('f, 'k, 'w, 'u, 'h, 'p, 'i) env \<Rightarrow> 'f json \<Rightarrow> 'f Unit \<Rightarrow> Locale
    \<Rightarrow> exn + ('f, 'k, 'w, 'u) base_forecast" where
  "BaseForecast_init env json unit locale =
     bnd (description_of json locale) (\<lambda>desc.
     bnd (bnd (int_at env json ''uvIndex'') (UltraViolet_new env)) (\<lambda>uv.
     bnd (int_at env json ''humidity'') (\<lambda>hum.
     bnd (bnd (getitem json ''winddir16Point'') (\<lambda>label.
          bnd (int_at env json ''winddirDegree'') (WindDirection_new env label))) (\<lambda>wd.
     bnd (bnd (int_at env json ''weatherCode'') (Kind env)) (\<lambda>k.
     bnd (int_at env json (''FeelsLike'' @ unit_temperature unit)) (\<lambda>fl.
     bnd (int_at env json (''temp_'' @ unit_temperature unit)) (\<lambda>temp.
     bnd (float_at env json (''precip'' @ unit_precipitation unit)) (\<lambda>prec.
     bnd (float_at env json (''pressure'' @ unit_pressure unit)) (\<lambda>pres.
     bnd (int_at env json (''visibility'' @ unit_visibility unit)) (\<lambda>vis.
     bnd (int_at env json (''windspeed'' @ unit_velocity unit)) (\<lambda>ws.
     bnd (py_strip desc) (\<lambda>d.
       Inr \<lparr> ultraviolet = uv, humidity = hum, wind_direction = wd, kind = k,
             feels_like = fl, temperature = temp, precipitation = prec, pressure = pres,
             visibility = vis, wind_speed = ws, description = d \<rparr>))))))))))))"

subsection \<open>\<^verbatim>\<open>HourlyForecast\<close>\<close>

record ('f, 'k, 'w, 'u, 'h) hourly_forecast = "('f, 'k, 'w, 'u) base_forecast" +
  chances_of_fog :: int
  chances_of_frost :: int
  chances_of_high_temperature :: int
  chances_of_overcast :: int
  chances_of_rain :: int
  chances_of_remaining_dry :: int
  chances_of_snow :: int
  chances_of_sunshine :: int
  chances_of_thunder :: int
  chances_of_windy :: int
  cloud_cover :: int
  time :: pytime
  dew_point :: int
  heat_index :: 'h
  wind_chill :: int
  wind_gust :: int

text \<open>\<^verbatim>\<open>json.pop(k)\<close> and \<^verbatim>\<open>json[k] = v\<close>. On a dict the first removes the key and
  returns its value, the second overwrites the key in place or appends it; a list
  refuses a str index, and no other value has \<^verbatim>\<open>pop\<close>.\<close>

fun pop :: "'f json \<Rightarrow> string \<Rightarrow> exn + ('f json \<times> 'f json)" where
  "pop (JObj kvs) k =
     (case map_of kvs k of
        None \<Rightarrow> Inl (KeyError (SKey k))
      | Some v \<Rightarrow> Inr (v, JObj (AList.delete k kvs)))"
| "pop (JArr xs) k = Inl TypeError"
| "pop _ k = Inl AttributeError"

fun setitem :: "'f json \<Rightarrow> string \<Rightarrow> 'f json \<Rightarrow> exn + 'f json" where
  "setitem (JObj kvs) k v = Inr (JObj (AList.update k v kvs))"
| "setitem _ k v = Inl TypeError"

text \<open>
  The two statements at the head of \<^verbatim>\<open>HourlyForecast.__init__\<close>,
  \<^verbatim>\<open>if 'temp_C' not in json: json['temp_C'] = json.pop('tempC')\<close> and its twin for
  \<^verbatim>\<open>temp_F\<close>, change the caller's dict. The model returns the dict as the statement
  leaves it, together with whether it raised.
\<close>

definition rename_key :: "string \<Rightarrow> string \<Rightarrow> 'f json \<Rightarrow> 'f json \<times> (exn + unit)" where
  "rename_key new old json =
     (case contains new json of
        Inl e \<Rightarrow> (json, Inl e)
      | Inr True \<Rightarrow> (json, Inr ())
      | Inr False \<Rightarrow>
          (case pop json old of
             Inl e \<Rightarrow> (json, Inl e)
           | Inr (v, json') \<Rightarrow>
               (case setitem json' new v of
                  Inl e \<Rightarrow> (json', Inl e)
                | Inr json'' \<Rightarrow> (json'', Inr ()))))"

text \<open>\<^verbatim>\<open>time() if len(t) < 3 else datetime.strptime(t, '%H%M').time()\<close>\<close>

definition hourly_time :: "'f json \<Rightarrow> exn + pytime" where
  "hourly_time t = bnd (len t) (\<lambda>n. if n < 3 then Inr (Time 0 0) else strptime_HM t)"

text \<open>The rest of the constructor, on the dict after the two renamings: the fields of
  the subclass in the order of the source, then \<^verbatim>\<open>super().__init__\<close>.\<close>

definition HourlyForecast_fields ::
  "('f, 'k, 'w, 'u, 'h, 'p, 'i) env \<Rightarrow> 'f json \<Rightarrow> 'f Unit \<Rightarrow> Locale
    \<Rightarrow> exn + ('f, 'k, 'w, 'u, 'h) hourly_forecast" where
  "HourlyForecast_fields env json unit locale =
     bnd (int_at env json ''HeatIndexC'') (\<lambda>celcius_index.
     bnd (getitem json ''time'') (\<lambda>t.
     bnd (int_at env json ''chanceoffog'') (\<lambda>fog.
     bnd (int_at env json ''chanceoffrost'') (\<lambda>frost.
     bnd (int_at env json ''chanceofhightemp'') (\<lambda>hightemp.
     bnd (int_at env json ''chanceofovercast'') (\<lambda>overcast.
     bnd (int_at env json ''chanceofrain'') (\<lambda>rain.
     bnd (int_at env json ''chanceofremdry'') (\<lambda>remdry.
     bnd (int_at env json ''chanceofsnow'') (\<lambda>snow.
     bnd (int_at env json ''chanceofsunshine'') (\<lambda>sunshine.
     bnd (int_at env json ''chanceofthunder'') (\<lambda>thunder.
     bnd (int_at env json ''chanceofwindy'') (\<lambda>windy.
     bnd (int_at env json ''cloudcover'') (\<lambda>cloud.
     bnd (hourly_time t) (\<lambda>tm.
     bnd (int_at env json (''DewPoint'' @ unit_temperature unit)) (\<lambda>dew.
     bnd (bnd (int_at env json (''HeatIndex'' @ unit_temperature unit))
            (HeatIndex_new env celcius_index)) (\<lambda>heat.
     bnd (int_at env json (''WindChill'' @ unit_temperature unit)) (\<lambda>chill.
     bnd (int_at env json (''WindGust'' @ unit_velocity unit)) (\<lambda>gust.
     bnd (BaseForecast_init env json unit locale) (\<lambda>base.
       Inr (base_forecast.extend base
             (hourly_forecast.fields fog frost hightemp overcast rain remdry snow sunshine
                thunder windy cloud tm dew heat chill gust)))))))))))))))))))))"

definition HourlyForecast_init ::
  "('f, 'k, 'w, 'u, 'h, 'p, 'i) env \<Rightarrow> 'f json \<Rightarrow> 'f Unit \<Rightarrow> Locale
    \<Rightarrow> 'f json \<times> (exn + ('f, 'k, 'w, 'u, 'h) hourly_forecast)" where
  "HourlyForecast_init env json unit locale =
     (case rename_key ''temp_C'' ''tempC'' json of
        (json1, Inl e) \<Rightarrow> (json1, Inl e)
      | (json1, Inr _) \<Rightarrow>
          (case rename_key ''temp_F'' ''tempF'' json1 of
             (json2, Inl e) \<Rightarrow> (json2, Inl e)
           | (json2, Inr _) \<Rightarrow> (json2, HourlyForecast_fields env json2 unit locale)))"

subsection \<open>\<^verbatim>\<open>DailyForecast\<close>\<close>

record ('f, 'k, 'w, 'u, 'h, 'p) daily_forecast =
  moon_illumination :: int
  moon_phase :: 'p
  moonrise :: "pytime option"
  moonset :: "pytime option"
  sunrise :: "pytime option"
  sunset :: "pytime option"
  date :: pydate
  sunlight :: 'f
  lowest_temperature :: int
  highest_temperature :: int
  daily_temperature :: int  \<comment> \<open>the attribute \<^verbatim>\<open>temperature\<close> of \<^verbatim>\<open>DailyForecast\<close>\<close>
  snowfall :: 'f
  hourly_forecasts :: "('f, 'k, 'w, 'u, 'h) hourly_forecast list"

text \<open>\<^verbatim>\<open>DailyForecast.__parse_time\<close>: \<^verbatim>\<open>try: return strptime(timestamp, '%I:%M %p').time()\<close>,
  \<^verbatim>\<open>except ValueError: ...\<close>, which falls through and returns \<^verbatim>\<open>None\<close>.\<close>

definition parse_time :: "'f json \<Rightarrow> exn + pytime option" where
  "parse_time timestamp =
     (case strptime_IMp timestamp of
        Inr t \<Rightarrow> Inr (Some t)
      | Inl (ValueError _) \<Rightarrow> Inr None
      | Inl e \<Rightarrow> Inl e)"

text \<open>The constructor of an hourly forecast changes the dict it is given; the daily
  forecast keeps the objects and drops the dicts.\<close>

definition DailyForecast_init ::
  "('f, 'k, 'w, 'u, 'h, 'p, 'i) env \<Rightarrow> 'f json \<Rightarrow> 'f Unit \<Rightarrow> Locale
    \<Rightarrow> exn + ('f, 'k, 'w, 'u, 'h, 'p) daily_forecast" where
  "DailyForecast_init env json unit locale =
     bnd (bnd (getitem json ''astronomy'') getitem0) (\<lambda>astronomy.
     bnd (int_at env astronomy ''moon_illumination'') (\<lambda>illum.
     bnd (bnd (getitem astronomy ''moon_phase'') (Phase env)) (\<lambda>phase.
     bnd (bnd (getitem astronomy ''moonrise'') parse_time) (\<lambda>mrise.
     bnd (bnd (getitem astronomy ''moonset'') parse_time) (\<lambda>mset.
     bnd (bnd (getitem astronomy ''sunrise'') parse_time) (\<lambda>srise.
     bnd (bnd (getitem astronomy ''sunset'') parse_time) (\<lambda>sset.
     bnd (bnd (getitem json ''date'') strptime_Ymd) (\<lambda>dt.
     bnd (float_at env json ''sunHour'') (\<lambda>sun.
     bnd (int_at env json (''mintemp'' @ unit_temperature unit)) (\<lambda>lo.
     bnd (int_at env json (''maxtemp'' @ unit_temperature unit)) (\<lambda>hi.
     bnd (int_at env json (''avgtemp'' @ unit_temperature unit)) (\<lambda>avg.
     bnd (bnd (float_at env json ''totalSnow_cm'') (\<lambda>cm. truediv env cm (unit_cm_divisor unit)))
       (\<lambda>snow.
     bnd (bnd (bnd (getitem json ''hourly'') iter)
            (comprehension (\<lambda>elem. snd (HourlyForecast_init env elem unit locale)))) (\<lambda>hourly.
       Inr \<lparr> moon_illumination = illum, moon_phase = phase, moonrise = mrise,
             moonset = mset, sunrise = srise, sunset = sset, date = dt, sunlight = sun,
             lowest_temperature = lo, highest_temperature = hi, daily_temperature = avg,
             snowfall = snow, hourly_forecasts = hourly \<rparr>))))))))))))))"

subsection \<open>\<^verbatim>\<open>Forecast\<close>\<close>

record ('f, 'k, 'w, 'u, 'h, 'p) forecast = "('f, 'k, 'w, 'u) base_forecast" +
  local_population :: int
  region :: "'f json"
  location :: "'f json"
  country :: "'f json"
  datetime :: pydatetime
  coordinates :: "'f \<times> 'f"
  daily_forecasts :: "('f, 'k, 'w, 'u, 'h, 'p) daily_forecast list"

text \<open>\<^verbatim>\<open>next(filter(lambda x: x['type'] == 'LatLon', xs))\<close>: the first element whose
  \<^verbatim>\<open>type\<close> is the str \<^verbatim>\<open>LatLon\<close>. An element before it that has no \<^verbatim>\<open>type\<close> raises;
  with no such element at all, \<^verbatim>\<open>next\<close> raises \<open>StopIteration\<close>.\<close>

fun next_LatLon :: "'f json list \<Rightarrow> exn + 'f json" where
  "next_LatLon [] = Inl StopIteration"
| "next_LatLon (x # xs) =
     bnd (getitem x ''type'') (\<lambda>t. if t = JStr ''LatLon'' then Inr x else next_LatLon xs)"

text \<open>\<^verbatim>\<open>LATLON_REGEX.match(q)\<close>, which wants a str, and \<^verbatim>\<open>float(match[i])\<close>: no match is
  \<^verbatim>\<open>None\<close>, which has no subscript, and a group that took no part is \<^verbatim>\<open>None\<close>, which
  \<^verbatim>\<open>float\<close> refuses.\<close>

fun latlon_match ::
  "('f, 'k, 'w, 'u, 'h, 'p, 'i) env \<Rightarrow> 'f json \<Rightarrow> exn + (string option \<times> string option)" where
  "latlon_match env (JStr q) =
     (case LATLON_REGEX_match env q of None \<Rightarrow> Inl TypeError | Some g \<Rightarrow> Inr g)"
| "latlon_match env _ = Inl TypeError"

definition float_group :: "('f, 'k, 'w, 'u, 'h, 'p, 'i) env \<Rightarrow> string option \<Rightarrow> exn + 'f" where
  "float_group env g = (case g of None \<Rightarrow> Inl TypeError | Some s \<Rightarrow> float_str env s)"

text \<open>The body of the \<^verbatim>\<open>try\<close> of \<^verbatim>\<open>Forecast.__init__\<close>.\<close>

definition request_coordinates ::
  "('f, 'k, 'w, 'u, 'h, 'p, 'i) env \<Rightarrow> 'f json \<Rightarrow> exn + ('f \<times> 'f)" where
  "request_coordinates env json =
     bnd (bnd (bnd (getitem json ''request'') iter) next_LatLon) (\<lambda>req.
     bnd (bnd (getitem req ''query'') (latlon_match env)) (\<lambda>match.
     bnd (float_group env (fst match)) (\<lambda>lat.
     bnd (float_group env (snd match)) (\<lambda>lon. Inr (lat, lon)))))"

text \<open>The \<^verbatim>\<open>except\<close> branch: \<^verbatim>\<open>(float(nearest['latitude']), float(nearest['longitude']))\<close>.\<close>

definition nearest_coordinates ::
  "('f, 'k, 'w, 'u, 'h, 'p, 'i) env \<Rightarrow> 'f json \<Rightarrow> exn + ('f \<times> 'f)" where
  "nearest_coordinates env nearest =
     bnd (float_at env nearest ''latitude'') (\<lambda>lat.
     bnd (float_at env nearest ''longitude'') (\<lambda>lon. Inr (lat, lon)))"

text \<open>The \<^verbatim>\<open>try\<close> with its bare \<^verbatim>\<open>except:\<close>, which catches whatever the body raises.\<close>

definition coordinates_of ::
  "('f, 'k, 'w, 'u, 'h, 'p, 'i) env \<Rightarrow> 'f json \<Rightarrow> 'f json \<Rightarrow> exn + ('f \<times> 'f)" where
  "coordinates_of env json nearest =
     (case request_coordinates env json of
        Inr c \<Rightarrow> Inr c
      | Inl _ \<Rightarrow> nearest_coordinates env nearest)"

definition Forecast_init ::
  "('f, 'k, 'w, 'u, 'h, 'p, 'i) env \<Rightarrow> 'f json \<Rightarrow> 'f Unit \<Rightarrow> Locale
    \<Rightarrow> exn + ('f, 'k, 'w, 'u, 'h, 'p) forecast" where
  "Forecast_init env json unit locale =
     bnd (bnd (getitem json ''current_condition'') getitem0) (\<lambda>current.
     bnd (bnd (getitem json ''nearest_area'') getitem0) (\<lambda>nearest.
     bnd (int_at env nearest ''population'') (\<lambda>pop.
     bnd (first_value nearest ''region'') (\<lambda>reg.
     bnd (first_value nearest ''areaName'') (\<lambda>loc.
     bnd (first_value nearest ''country'') (\<lambda>ctry.
     bnd (bnd (getitem current ''localObsDateTime'') strptime_Ymd_IMp) (\<lambda>dt.
     bnd (coordinates_of env json nearest) (\<lambda>coords.
     bnd (bnd (bnd (getitem json ''weather'') iter)
            (comprehension (\<lambda>elem. DailyForecast_init env elem unit locale))) (\<lambda>daily.
     bnd (BaseForecast_init env current unit locale) (\<lambda>base.
       Inr (base_forecast.extend base
             (forecast.fields pop reg loc ctry dt coords daily))))))))))))"

section \<open>The client (\<^verbatim>\<open>client.py\<close>)\<close>

text \<open>A \<^verbatim>\<open>Weather\<close> object holds the locale and the unit system (and a logger, which
  the model leaves out, as it does every logging call).\<close>

record 'f Weather =
  self_locale :: Locale
  self_unit :: "'f Unit"

definition Weather_init ::
  "('f, 'k, 'w, 'u, 'h, 'p, 'i) env \<Rightarrow> string \<Rightarrow> string \<Rightarrow> exn + 'f Weather" where
  "Weather_init env locale unit =
     bnd (Locale_new env locale) (\<lambda>l.
       Inr \<lparr> self_locale = l,
             self_unit = (if lower unit = ''imperial'' then IMPERIAL env else METRIC env) \<rparr>)"

text \<open>\<^verbatim>\<open>_format_content\<close>: both of its \<^verbatim>\<open>except\<close> clauses log and raise the exception
  again, as it is.\<close>

definition format_content ::
  "('f, 'k, 'w, 'u, 'h, 'p, 'i) env \<Rightarrow> 'f Weather \<Rightarrow> string
    \<Rightarrow> exn + ('f, 'k, 'w, 'u, 'h, 'p) forecast" where
  "format_content env self c =
     bnd (loads env c) (\<lambda>data. Forecast_init env data (self_unit self) (self_locale self))"

text \<open>\<^verbatim>\<open>response.raise_for_status()\<close>: nothing for a 2xx status, \<^verbatim>\<open>HTTPStatusError\<close> for
  4xx and 5xx; for the other classes the releases of \<^verbatim>\<open>httpx\<close> differ.\<close>

definition raise_for_status ::
  "('f, 'k, 'w, 'u, 'h, 'p, 'i) env \<Rightarrow> response \<Rightarrow> pyexn option" where
  "raise_for_status env r =
     (if 200 \<le> status_code r \<and> status_code r < 300 then None
      else if (400 \<le> status_code r \<and> status_code r < 600) \<or> raises_outside_2xx env
      then Some (HTTPStatusError r)
      else None)"

text \<open>What one \<^verbatim>\<open>await client.get(url, headers=headers)\<close> does, and what \<^verbatim>\<open>_fetch_url\<close>
  returns: the forecast, the text when \<^verbatim>\<open>raw\<close> is set, or \<^verbatim>\<open>None\<close> when the loop ends
  without a \<^verbatim>\<open>return\<close>.\<close>

datatype outcome = Response response | Raises pyexn

datatype 'a fetched = Forecast_result 'a | Text_result string | None_result

text \<open>What both branches of the \<^verbatim>\<open>try\<close> return: \<^verbatim>\<open>response.text\<close> when \<^verbatim>\<open>raw\<close> is set,
  \<^verbatim>\<open>self._format_content(response.content, url)\<close> otherwise.\<close>

definition response_content ::
  "('f, 'k, 'w, 'u, 'h, 'p, 'i) env \<Rightarrow> 'f Weather \<Rightarrow> bool \<Rightarrow> response
    \<Rightarrow> pyexn + ('f, 'k, 'w, 'u, 'h, 'p) forecast fetched" where
  "response_content env self raw r =
     (if \<not> raw
      then (case format_content env self (content r) of
              Inl e \<Rightarrow> Inl (Builtin e) | Inr f \<Rightarrow> Inr (Forecast_result f))
      else Inr (Text_result (response_text r)))"

text \<open>The body of the \<^verbatim>\<open>try\<close> in the loop, given what the GET did: a 404 with text
  returns at once, any other response goes through \<^verbatim>\<open>raise_for_status\<close> first.\<close>

definition attempt_body ::
  "('f, 'k, 'w, 'u, 'h, 'p, 'i) env \<Rightarrow> 'f Weather \<Rightarrow> bool \<Rightarrow> outcome
    \<Rightarrow> pyexn + ('f, 'k, 'w, 'u, 'h, 'p) forecast fetched" where
  "attempt_body env self raw out =
     (case out of
        Raises e \<Rightarrow> Inl e
      | Response r \<Rightarrow>
          if status_code r = 404 \<and> response_text r \<noteq> [] then response_content env self raw r
          else (case raise_for_status env r of
                  Some e \<Rightarrow> Inl e
                | None \<Rightarrow> response_content env self raw r))"

text \<open>What a call of \<^verbatim>\<open>_fetch_url\<close> did besides returning: how many GETs it sent and
  the seconds of each \<^verbatim>\<open>asyncio.sleep\<close>.\<close>

record fetch_trace =
  attempts :: nat
  sleeps :: "nat list"

text \<open>
  \<^verbatim>\<open>for attempt in range(max_retries)\<close>, as a recursion over the attempts that are left.
  \<open>net url i\<close> is what the \<open>i\<close>-th GET of this call does. The first \<^verbatim>\<open>except\<close> clause
  catches \<^verbatim>\<open>HTTPStatusError\<close>: raise on the last attempt, sleep \<^verbatim>\<open>1 * (attempt + 1)\<close> and go
  on otherwise; the two other clauses raise.
\<close>

fun fetch_loop ::
  "('f, 'k, 'w, 'u, 'h, 'p, 'i) env \<Rightarrow> 'f Weather \<Rightarrow> (string \<Rightarrow> nat \<Rightarrow> outcome) \<Rightarrow> string
    \<Rightarrow> bool \<Rightarrow> nat \<Rightarrow> nat list \<Rightarrow> fetch_trace
    \<Rightarrow> fetch_trace \<times> (pyexn + ('f, 'k, 'w, 'u, 'h, 'p) forecast fetched)" where
  "fetch_loop env self net url raw max_retries [] tr = (tr, Inr None_result)"
| "fetch_loop env self net url raw max_retries (attempt # rest) tr =
     (let tr1 = tr\<lparr>attempts := attempts tr + 1\<rparr> in
      case attempt_body env self raw (net url attempt) of
        Inr v \<Rightarrow> (tr1, Inr v)
      | Inl (HTTPStatusError r) \<Rightarrow>
          if attempt = max_retries - 1 then (tr1, Inl (HTTPStatusError r))
          else fetch_loop env self net url raw max_retries rest
                 (tr1\<lparr>sleeps := sleeps tr1 @ [1 * (attempt + 1)]\<rparr>)
      | Inl e \<Rightarrow> (tr1, Inl e))"

definition fetch_url ::
  "('f, 'k, 'w, 'u, 'h, 'p, 'i) env \<Rightarrow> 'f Weather \<Rightarrow> (string \<Rightarrow> nat \<Rightarrow> outcome) \<Rightarrow> string
    \<Rightarrow> bool \<Rightarrow> nat
    \<Rightarrow> fetch_trace \<times> (pyexn + ('f, 'k, 'w, 'u, 'h, 'p) forecast fetched)" where
  "fetch_url env self net url raw max_retries =
     fetch_loop env self net url raw max_retries [0 ..< max_retries]
       \<lparr> attempts = 0, sleeps = [] \<rparr>"

text \<open>\<^verbatim>\<open>get_forecast\<close> builds the URL, for which \<^verbatim>\<open>quote_plus\<close> wants a str, and calls
  \<^verbatim>\<open>_fetch_url\<close> with its defaults: \<^verbatim>\<open>raw=False\<close>, \<^verbatim>\<open>max_retries=3\<close>.\<close>

definition forecast_url :: "('f, 'k, 'w, 'u, 'h, 'p, 'i) env \<Rightarrow> 'f Weather \<Rightarrow> string \<Rightarrow> string" where
  "forecast_url env self loc =
     ''https://'' @ locale_value (self_locale self) @ ''.wttr.in/'' @ quote_plus env loc
       @ ''?format=j1''"

definition get_forecast ::
  "('f, 'k, 'w, 'u, 'h, 'p, 'i) env \<Rightarrow> 'f Weather \<Rightarrow> (string \<Rightarrow> nat \<Rightarrow> outcome) \<Rightarrow> 'f json
    \<Rightarrow> fetch_trace \<times> (pyexn + ('f, 'k, 'w, 'u, 'h, 'p) forecast fetched)" where
  "get_forecast env self net loc =
     (case loc of
        JStr l \<Rightarrow> fetch_url env self net (forecast_url env self l) False 3
      | _ \<Rightarrow> (\<lparr> attempts = 0, sleeps = [] \<rparr>, Inl (Builtin TypeError)))"

section \<open>The tool handler (\<^verbatim>\<open>weather_server.py\<close>)\<close>

datatype content = TextContent string string

definition forecast_entry :: "('f, 'k, 'w, 'u, 'h, 'p) daily_forecast \<Rightarrow> 'i pyval" where
  "forecast_entry d =
     PDict [(''date'', PStr (strftime_Ymd (date d))),
            (''high_temperature'', PInt (highest_temperature d)),
            (''low_temperature'', PInt (lowest_temperature d))]"

definition weather_data ::
  "('f, 'k, 'w, 'u, 'h, 'p, 'i) env \<Rightarrow> ('f, 'k, 'w, 'u, 'h, 'p) forecast \<Rightarrow> 'i pyval" where
  "weather_data env weather =
     PDict [(''currently'', PDict
       [(''current_temperature'', PInt (temperature weather)),
        (''sky'', PStr (kind_emoji env (kind weather))),
        (''feels_like'', PInt (feels_like weather)),
        (''humidity'', PInt (humidity weather)),
        (''wind_speed'', PInt (wind_speed weather)),
        (''wind_direction'', PStr (wind_direction_value env (wind_direction weather)
                                    @ wind_direction_emoji env (wind_direction weather))),
        (''visibility'', PInt (visibility weather)),
        (''uv_index'', PAttr (ultraviolet_index env (ultraviolet weather))),
        (''description'', PStr (description weather)),
        (''forecasts'', PList (map forecast_entry (daily_forecasts weather)))])]"

text \<open>Reading the response map: \<^verbatim>\<open>d[k]\<close> where there is such a key, and
  \<^verbatim>\<open>weather_data['currently'][k]\<close>.\<close>

fun pyval_get :: "'i pyval \<Rightarrow> string \<Rightarrow> 'i pyval option" where
  "pyval_get (PDict kvs) k = map_of kvs k"
| "pyval_get _ k = None"

definition currently :: "'i pyval \<Rightarrow> string \<Rightarrow> 'i pyval option" where
  "currently wd k = (case pyval_get wd ''currently'' of None \<Rightarrow> None | Some c \<Rightarrow> pyval_get c k)"

text \<open>The body of the \<^verbatim>\<open>try\<close> of \<^verbatim>\<open>call_tool\<close>. Were \<^verbatim>\<open>get_forecast\<close> to return no
  forecast, \<^verbatim>\<open>weather.daily_forecasts\<close> would raise.\<close>

definition call_tool_body ::
  "('f, 'k, 'w, 'u, 'h, 'p, 'i) env \<Rightarrow> (string \<Rightarrow> nat \<Rightarrow> outcome) \<Rightarrow> 'f json
    \<Rightarrow> pyexn + content list" where
  "call_tool_body env net arguments =
     (case getitem arguments ''location_name'' of
        Inl e \<Rightarrow> Inl (Builtin e)
      | Inr location_name \<Rightarrow>
     (case Weather_init env ''en'' ''imperial'' of
        Inl e \<Rightarrow> Inl (Builtin e)
      | Inr self \<Rightarrow>
     (case snd (get_forecast env self net location_name) of
        Inl e \<Rightarrow> Inl e
      | Inr (Forecast_result weather) \<Rightarrow>
          (case dumps env (weather_data env weather) of
             Inl e \<Rightarrow> Inl (Builtin e)
           | Inr s \<Rightarrow> Inr [TextContent ''text'' s])
      | Inr _ \<Rightarrow> Inl (Builtin AttributeError))))"

text \<open>
  \<^verbatim>\<open>call_tool(name, arguments)\<close>. The two checks stand before the \<^verbatim>\<open>try\<close> and raise
  \<^verbatim>\<open>ValueError\<close>; \<^verbatim>\<open>except Exception as e\<close> turns what the body raises into
  \<^verbatim>\<open>RuntimeError(f"Weather API error: {str(e)}")\<close>.
\<close>



definition call_tool ::
  "('f, 'k, 'w, 'u, 'h, 'p, 'i) env \<Rightarrow> (string \<Rightarrow> nat \<Rightarrow> outcome) \<Rightarrow> string \<Rightarrow> 'f json
    \<Rightarrow> pyexn + content list" where
  "call_tool env net name arguments =
     (if name \<noteq> ''get_current_weather''
      then Inl (Builtin (ValueError (Message (''Unknown tool: '' @ name))))
      else if \<not> is_dict arguments \<or> \<not> has_key arguments ''location_name''
      then Inl (Builtin (ValueError (Message ''Invalid weather arguments'')))
      else (case call_tool_body env net arguments of
              Inl e \<Rightarrow> Inl (RuntimeError (''Weather API error: '' @ str_of_exn env e))
            | Inr result \<Rightarrow> Inr result))"

section \<open>An instance of the parameters and a sample document\<close>

text \<open>
  To run the model, the parameters need values. In \<open>sample_env\<close> a float is a
  fixed-point number with three decimals (the integer counts thousandths), an enum
  object is the raw value it was built from, the decoder knows one document, and the
  regular expression reads \<^verbatim>\<open>Lat <a> and Lon <b>\<close>. The sample document has the shape
  wttr.in sends: every number is a str, and an hourly record has \<^verbatim>\<open>tempC\<close> and
  \<^verbatim>\<open>tempF\<close> where the current condition has \<^verbatim>\<open>temp_C\<close> and \<^verbatim>\<open>temp_F\<close>.
\<close>

definition sample_float_of_str :: "string \<Rightarrow> int option" where
  "sample_float_of_str s =
     (let t = strip s;
          neg = (t \<noteq> [] \<and> hd t = CHR ''-'');
          body = (if t \<noteq> [] \<and> hd t \<in> set ''+-'' then tl t else t);
          ip = takeWhile (\<lambda>c. c \<noteq> CHR ''.'') body;
          fp = drop 1 (dropWhile (\<lambda>c. c \<noteq> CHR ''.'') body)
      in if ip \<noteq> [] \<and> list_all is_digit ip \<and> list_all is_digit fp \<and> length fp \<le> 3
         then (case (py_digits 0 ip, py_digits 0 (fp @ replicate (3 - length fp) CHR ''0'')) of
                 (Some n, Some f) \<Rightarrow>
                   Some ((if neg then - 1 else 1) * (n * 1000 + f))
               | _ \<Rightarrow> None)
         else None)"

definition sample_latlon :: "string \<Rightarrow> (string option \<times> string option) option" where
  "sample_latlon q =
     (if take 4 q = ''Lat ''
      then (let a = takeWhile (\<lambda>c. c \<noteq> CHR '' '') (drop 4 q);
                r = dropWhile (\<lambda>c. c \<noteq> CHR '' '') (drop 4 q)
            in if take 9 r = '' and Lon '' then Some (Some a, Some (drop 9 r)) else None)
      else None)"

definition sample_current :: "int json" where
  "sample_current = JObj
     [(''FeelsLikeC'', JStr ''10''), (''FeelsLikeF'', JStr ''50''),
      (''cloudcover'', JStr ''0''), (''humidity'', JStr ''71''),
      (''localObsDateTime'', JStr ''2024-11-05 09:34 PM''),
      (''precipInches'', JStr ''0.0''), (''precipMM'', JStr ''0.0''),
      (''pressure'', JStr ''1023''), (''pressureInches'', JStr ''30''),
      (''temp_C'', JStr ''11''), (''temp_F'', JStr ''52''), (''uvIndex'', JStr ''1''),
      (''visibility'', JStr ''10''), (''visibilityMiles'', JStr ''6''),
      (''weatherCode'', JStr ''113''),
      (''weatherDesc'', JArr [JObj [(''value'', JStr ''Clear '')]]),
      (''winddir16Point'', JStr ''ESE''), (''winddirDegree'', JStr ''113''),
      (''windspeedKmph'', JStr ''9''), (''windspeedMiles'', JStr ''6'')]"

definition sample_nearest :: "int json" where
  "sample_nearest = JObj
     [(''areaName'', JArr [JObj [(''value'', JStr ''Berlin'')]]),
      (''country'', JArr [JObj [(''value'', JStr ''Germany'')]]),
      (''latitude'', JStr ''52.517''), (''longitude'', JStr ''13.400''),
      (''population'', JStr ''3426354''),
      (''region'', JArr [JObj [(''value'', JStr ''Berlin'')]])]"

definition sample_request :: "int json" where
  "sample_request =
     JArr [JObj [(''query'', JStr ''Lat 52.52 and Lon 13.41''), (''type'', JStr ''LatLon'')]]"

definition sample_hourly_kvs :: "(string \<times> int json) list" where
  "sample_hourly_kvs =
     [(''DewPointC'', JStr ''6''), (''DewPointF'', JStr ''43''),
      (''FeelsLikeC'', JStr ''9''), (''FeelsLikeF'', JStr ''48''),
      (''HeatIndexC'', JStr ''10''), (''HeatIndexF'', JStr ''50''),
      (''WindChillC'', JStr ''9''), (''WindChillF'', JStr ''48''),
      (''WindGustKmph'', JStr ''14''), (''WindGustMiles'', JStr ''9''),
      (''chanceoffog'', JStr ''0''), (''chanceoffrost'', JStr ''0''),
      (''chanceofhightemp'', JStr ''0''), (''chanceofovercast'', JStr ''35''),
      (''chanceofrain'', JStr ''0''), (''chanceofremdry'', JStr ''87''),
      (''chanceofsnow'', JStr ''0''), (''chanceofsunshine'', JStr ''83''),
      (''chanceofthunder'', JStr ''0''), (''chanceofwindy'', JStr ''0''),
      (''cloudcover'', JStr ''24''), (''humidity'', JStr ''77''),
      (''precipInches'', JStr ''0.0''), (''precipMM'', JStr ''0.0''),
      (''pressure'', JStr ''1024''), (''pressureInches'', JStr ''30''),
      (''tempC'', JStr ''10''), (''tempF'', JStr ''50''), (''time'', JStr ''900''),
      (''uvIndex'', JStr ''2''), (''visibility'', JStr ''10''),
      (''visibilityMiles'', JStr ''6''), (''weatherCode'', JStr ''116''),
      (''weatherDesc'', JArr [JObj [(''value'', JStr ''Partly Cloudy '')]]),
      (''winddir16Point'', JStr ''E''), (''winddirDegree'', JStr ''96''),
      (''windspeedKmph'', JStr ''9''), (''windspeedMiles'', JStr ''6'')]"

definition sample_astronomy :: "int json" where
  "sample_astronomy = JObj
     [(''moon_illumination'', JStr ''22''), (''moon_phase'', JStr ''Waxing Crescent''),
      (''moonrise'', JStr ''No moonrise''), (''moonset'', JStr ''05:48 PM''),
      (''sunrise'', JStr ''07:06 AM''), (''sunset'', JStr ''04:29 PM'')]"

definition sample_day :: "string \<Rightarrow> string \<Rightarrow> string \<Rightarrow> int json" where
  "sample_day d hi lo = JObj
     [(''astronomy'', JArr [sample_astronomy]),
      (''avgtempC'', JStr ''9''), (''avgtempF'', JStr ''49''), (''date'', JStr d),
      (''hourly'', JArr [JObj sample_hourly_kvs]),
      (''maxtempC'', JStr ''12''), (''maxtempF'', JStr hi),
      (''mintempC'', JStr ''6''), (''mintempF'', JStr lo),
      (''sunHour'', JStr ''8.7''), (''totalSnow_cm'', JStr ''0.0''), (''uvIndex'', JStr ''1'')]"

definition sample_weather :: "int json list" where
  "sample_weather =
     [sample_day ''2024-11-05'' ''54'' ''43'', sample_day ''2024-11-06'' ''51'' ''40'']"

definition sample_payload :: "int json" where
  "sample_payload = JObj
     [(''current_condition'', JArr [sample_current]),
      (''nearest_area'', JArr [sample_nearest]),
      (''request'', sample_request),
      (''weather'', JArr sample_weather)]"

definition sample_imperial :: "int Unit" where
  "sample_imperial =
     \<lparr> unit_temperature = ''F'', unit_precipitation = ''Inches'', unit_pressure = ''Inches'',
       unit_visibility = ''Miles'', unit_velocity = ''Miles'', unit_cm_divisor = 2540 \<rparr>"

definition sample_metric :: "int Unit" where
  "sample_metric =
     \<lparr> unit_temperature = ''C'', unit_precipitation = ''MM'', unit_pressure = [],
       unit_visibility = [], unit_velocity = ''Kmph'', unit_cm_divisor = 1000 \<rparr>"

fun sample_str_of_exn :: "pyexn \<Rightarrow> string" where
  "sample_str_of_exn (Builtin (KeyError (SKey k))) = [CHR 0x27] @ k @ [CHR 0x27]"
| "sample_str_of_exn (Builtin (ValueError (InvalidLiteralInt l))) =
     ''invalid literal for int() with base 10: '' @ [CHR 0x27] @ l @ [CHR 0x27]"
| "sample_str_of_exn (HTTPStatusError r) = ''Server error''"
| "sample_str_of_exn (RequestError m) = m"
| "sample_str_of_exn (RuntimeError m) = m"
| "sample_str_of_exn _ = ''error''"

definition sample_env ::
  "(int, int, string \<times> int, int, int \<times> int, string, int) env" where
  "sample_env =
     \<lparr> loads = (\<lambda>c. if c = ''berlin'' then Inr sample_payload
                     else Inl (ValueError (Message ''JSONDecodeError''))),
       float_of_str = sample_float_of_str,
       float_of_int = (\<lambda>n. Some (1000 * n)),
       int_of_float = (\<lambda>x. Inr ((if x < 0 then - 1 else 1) * (\<bar>x\<bar> div 1000))),
       truediv = (\<lambda>a b. if b = 0 then Inl ZeroDivisionError else Inr (a * 1000 div b)),
       int_max_str_digits = 4300,
       UltraViolet_new = (\<lambda>n. Inr n),
       WindDirection_new =
         (\<lambda>label deg. case label of JStr l \<Rightarrow> Inr (l, deg)
                       | _ \<Rightarrow> Inl (ValueError (Message ''not a valid WindDirection''))),
       Kind = (\<lambda>c. if c \<in> set [113, 116, 119, 122, 143, 176, 200, 248, 296, 338]
                   then Inr c else Inl (ValueError (Message ''not a valid Kind''))),
       HeatIndex_new = (\<lambda>c v. Inr (c, v)),
       Phase = (\<lambda>v. case v of JStr l \<Rightarrow> Inr l
                     | _ \<Rightarrow> Inl (ValueError (Message ''not a valid Phase''))),
       locale_codes = [''de'', ''fr''],
       kind_emoji = (\<lambda>c. if c = 113 then ''sun'' else ''cloud''),
       wind_direction_value = fst,
       wind_direction_emoji = (\<lambda>w. ''>''),
       ultraviolet_index = (\<lambda>u. u),
       METRIC = sample_metric,
       IMPERIAL = sample_imperial,
       LATLON_REGEX_match = sample_latlon,
       quote_plus = (\<lambda>l. l),
       dumps = (\<lambda>v. Inr ''{}''),
       str_of_exn = sample_str_of_exn,
       raises_outside_2xx = True \<rparr>"

text \<open>Four networks: one that answers 200 with the sample document, one that
  answers 500 twice first, one that answers 500, 501, 502, and one that answers 404
  with the document as its body.\<close>

definition ok_response :: response where
  "ok_response = \<lparr> status_code = 200, response_text = ''berlin'', content = ''berlin'' \<rparr>"

definition error_response :: response where
  "error_response = \<lparr> status_code = 500, response_text = [], content = [] \<rparr>"

definition net_ok :: "string \<Rightarrow> nat \<Rightarrow> outcome" where
  "net_ok url i = Response ok_response"

definition net_500_500_200 :: "string \<Rightarrow> nat \<Rightarrow> outcome" where
  "net_500_500_200 url i = (if i < 2 then Response error_response else Response ok_response)"

definition net_500 :: "string \<Rightarrow> nat \<Rightarrow> outcome" where
  "net_500 url i = Response (error_response\<lparr>status_code := 500 + i\<rparr>)"

definition net_404_body :: "string \<Rightarrow> nat \<Rightarrow> outcome" where
  "net_404_body url i = Response (ok_response\<lparr>status_code := 404\<rparr>)"

text \<open>The first hour of a sample day, as the constructor builds it.\<close>

definition sample_hour :: "(int, int, string \<times> int, int, int \<times> int) hourly_forecast" where
  "sample_hour =
     \<lparr> ultraviolet = 2, humidity = 77, wind_direction = (''E'', 96), kind = 116,
       feels_like = 48, temperature = 50, precipitation = 0, pressure = 30000,
       visibility = 6, wind_speed = 6, description = ''Partly Cloudy'',
       chances_of_fog = 0, chances_of_frost = 0, chances_of_high_temperature = 0,
       chances_of_overcast = 35, chances_of_rain = 0, chances_of_remaining_dry = 87,
       chances_of_snow = 0, chances_of_sunshine = 83, chances_of_thunder = 0,
       chances_of_windy = 0, cloud_cover = 24, time = Time 9 0, dew_point = 43,
       heat_index = (10, 50), wind_chill = 48, wind_gust = 9 \<rparr>"

text \<open>The first sample day and the sample document, as the constructors build them.\<close>

definition sample_daily ::
  "pydate \<Rightarrow> int \<Rightarrow> int
    \<Rightarrow> (int, int, string \<times> int, int, int \<times> int, string) daily_forecast" where
  "sample_daily dt hi lo =
     \<lparr> moon_illumination = 22, moon_phase = ''Waxing Crescent'', moonrise = None,
       moonset = Some (Time 17 48), sunrise = Some (Time 7 6), sunset = Some (Time 16 29),
       date = dt, sunlight = 8700, lowest_temperature = lo, highest_temperature = hi,
       daily_temperature = 49, snowfall = 0, hourly_forecasts = [sample_hour] \<rparr>"

definition sample_forecast ::
  "(int, int, string \<times> int, int, int \<times> int, string) forecast" where
  "sample_forecast =
     \<lparr> ultraviolet = 1, humidity = 71, wind_direction = (''ESE'', 113), kind = 113,
       feels_like = 50, temperature = 52, precipitation = 0, pressure = 30000,
       visibility = 6, wind_speed = 6, description = ''Clear'',
       local_population = 3426354, region = JStr ''Berlin'', location = JStr ''Berlin'',
       country = JStr ''Germany'', datetime = DateTime 2024 11 5 21 34,
       coordinates = (52520, 13410),
       daily_forecasts =
         [sample_daily (Date 2024 11 5) 54 43, sample_daily (Date 2024 11 6) 51 40] \<rparr>"

text \<open>A request that echoes a place name, as wttr.in sends for a query by name.\<close>

definition sample_request_by_name :: "int json" where
  "sample_request_by_name =
     JObj [(''request'', JArr [JObj [(''query'', JStr ''Berlin''), (''type'', JStr ''City'')]])]"

definition sample_request_unparsable :: "int json" where
  "sample_request_unparsable =
     JObj [(''request'', JArr [JObj [(''query'', JStr ''somewhere''), (''type'', JStr ''LatLon'')]])]"

definition sample_self :: "int Weather" where
  "sample_self = \<lparr> self_locale = ENGLISH, self_unit = sample_imperial \<rparr>"

text \<open>A response whose status makes \<^verbatim>\<open>_fetch_url\<close> retry: 4xx or 5xx, but not a 404 that
  comes with text.\<close>

definition status_failure :: "response \<Rightarrow> bool" where
  "status_failure r \<longleftrightarrow>
     400 \<le> status_code r \<and> status_code r < 600
     \<and> \<not> (status_code r = 404 \<and> response_text r \<noteq> [])"

section \<open>Properties\<close>

subsection \<open>Sequencing\<close>

lemma bnd_Inr_iff: "bnd m f = Inr y \<longleftrightarrow> (\<exists>x. m = Inr x \<and> f x = Inr y)"
  by (cases m) (simp_all add: bnd_def)

lemma bnd_Inr [simp]: "bnd (Inr x) f = f x"
  by (simp add: bnd_def)

lemma bnd_Inl [simp]: "bnd (Inl e) f = Inl e"
  by (simp add: bnd_def)

lemma bnd_Inl_iff:
  "bnd m f = Inl e \<longleftrightarrow> m = Inl e \<or> (\<exists>x. m = Inr x \<and> f x = Inl e)"
  by (cases m) simp_all

lemma comprehension_Inr_iff:
  "comprehension f xs = Inr ys \<longleftrightarrow> list_all2 (\<lambda>x y. f x = Inr y) xs ys"
proof (induction xs arbitrary: ys)
  case Nil
  show ?case by auto
next
  case (Cons x xs)
  show ?case
    by (cases ys) (auto simp: bnd_Inr_iff Cons.IH)
qed

subsection \<open>The matchers on digits\<close>

lemmas rx_defs = rx_match_def rx_HM_def rx_IMp_def rx_Ymd_def rx_Ymd_IMp_def rx_then_def
  rx_ret_def rx_H_def rx_M_def rx_I_def rx_m_def rx_d_def rx_Y_def rx_lit_def rx_ws_def
  rx_p_def alt1_def alt2_def is_digit_def digit_val_def is_space_def lower_char_def
  hour12_def

lemma dec_digit_cases:
  assumes "k < 10"
  shows "k = 0 \<or> k = 1 \<or> k = 2 \<or> k = 3 \<or> k = 4 \<or> k = 5 \<or> k = 6 \<or> k = 7 \<or> k = 8
         \<or> k = (9::nat)"
  using assms by arith

lemma digit_val_dec_digit: "k < 10 \<Longrightarrow> digit_val (dec_digit k) = k"
  using dec_digit_cases[of k] by (auto simp: dec_digit_def digit_val_def)

lemma is_digit_dec_digit: "k < 10 \<Longrightarrow> is_digit (dec_digit k)"
  using dec_digit_cases[of k] by (auto simp: dec_digit_def is_digit_def)

lemma two_digit_hour:
  assumes "is_digit a" "is_digit b" "10 * digit_val a + digit_val b \<le> 23"
  shows "(a = CHR ''2'' \<and> b \<in> set ''0123'') \<or> (a \<in> set ''01'' \<and> is_digit b)"
  using assms unfolding is_digit_def digit_val_def by (auto split: if_splits)

lemma minute_digit: "is_digit c \<Longrightarrow> digit_val c \<le> 5 \<Longrightarrow> c \<in> set ''012345''"
  unfolding is_digit_def digit_val_def by (auto split: if_splits)

lemma rx_H_two:
  assumes "is_digit a" "is_digit b" "10 * digit_val a + digit_val b \<le> 23"
  shows "\<exists>rest. rx_H (a # b # r) = (10 * digit_val a + digit_val b, r) # rest"
  using two_digit_hour[OF assms] assms(1,2)
  by (auto simp: rx_H_def alt2_def alt1_def)

lemma rx_H_one:
  assumes "is_digit a" "3 \<le> digit_val a"
  shows "rx_H (a # r) = [(digit_val a, r)]"
proof -
  have "a \<noteq> CHR ''2''" "a \<notin> set ''01''"
    using assms(2) by (auto simp: digit_val_def)
  then show ?thesis
    using assms(1) by (cases r) (simp_all add: rx_H_def alt2_def alt1_def)
qed

lemma rx_M_two:
  assumes "is_digit c" "is_digit d" "digit_val c \<le> 5"
  shows "\<exists>rest. rx_M (c # d # r) = (10 * digit_val c + digit_val d, r) # rest"
  using minute_digit[OF assms(1,3)] assms(2)
  by (auto simp: rx_M_def alt2_def alt1_def)

lemma strptime_HM_4:
  assumes "h < 24" "m < 60"
  shows "strptime_HM (JStr (pad2 h @ pad2 m)) = Inr (Time h m)"
proof -
  let ?a = "dec_digit (h div 10)" and ?b = "dec_digit h"
  let ?c = "dec_digit (m div 10)" and ?d = "dec_digit m"
  have dv: "digit_val ?a = h div 10" "digit_val ?b = h mod 10"
      "digit_val ?c = m div 10" "digit_val ?d = m mod 10"
    using assms digit_val_dec_digit[of "h div 10"] digit_val_dec_digit[of "h mod 10"]
      digit_val_dec_digit[of "m div 10"] digit_val_dec_digit[of "m mod 10"]
    by (simp_all add: dec_digit_def)
  have dg: "is_digit ?a" "is_digit ?b" "is_digit ?c" "is_digit ?d"
    using assms is_digit_dec_digit[of "h div 10"] is_digit_dec_digit[of "h mod 10"]
      is_digit_dec_digit[of "m div 10"] is_digit_dec_digit[of "m mod 10"]
    by (simp_all add: dec_digit_def)
  have hv: "10 * digit_val ?a + digit_val ?b = h" and mv: "10 * digit_val ?c + digit_val ?d = m"
    by (simp_all add: dv)
  obtain r1 where 1: "rx_H [?a, ?b, ?c, ?d] = (h, [?c, ?d]) # r1"
    using rx_H_two[OF dg(1,2), of "[?c, ?d]"] assms(1) hv by auto
  obtain r2 where 2: "rx_M [?c, ?d] = (m, []) # r2"
    using rx_M_two[OF dg(3,4), of "[]"] assms(2) dv(3) mv by auto
  show ?thesis
    by (simp add: pad2_def rx_match_def rx_HM_def rx_then_def rx_ret_def 1 2)
qed

lemma strptime_HM_3:
  assumes "3 \<le> h" "h < 10" "m < 60"
  shows "strptime_HM (JStr (dec_digit h # pad2 m)) = Inr (Time h m)"
proof -
  let ?a = "dec_digit h"
  let ?c = "dec_digit (m div 10)" and ?d = "dec_digit m"
  have dv: "digit_val ?a = h" "digit_val ?c = m div 10" "digit_val ?d = m mod 10"
    using assms digit_val_dec_digit[of h]
      digit_val_dec_digit[of "m div 10"] digit_val_dec_digit[of "m mod 10"]
    by (simp_all add: dec_digit_def)
  have dg: "is_digit ?a" "is_digit ?c" "is_digit ?d"
    using assms is_digit_dec_digit[of h]
      is_digit_dec_digit[of "m div 10"] is_digit_dec_digit[of "m mod 10"]
    by (simp_all add: dec_digit_def)
  have mv: "10 * digit_val ?c + digit_val ?d = m"
    by (simp add: dv)
  have 1: "rx_H [?a, ?c, ?d] = [(h, [?c, ?d])]"
    using rx_H_one[OF dg(1), of "[?c, ?d]"] assms(1) dv(1) by simp
  obtain r2 where 2: "rx_M [?c, ?d] = (m, []) # r2"
    using rx_M_two[OF dg(2,3), of "[]"] assms(3) dv(2) mv by auto
  show ?thesis
    by (simp add: pad2_def rx_match_def rx_HM_def rx_then_def rx_ret_def 1 2)
qed

subsection \<open>The renaming of keys\<close>

lemma map_of_rename:
  "map_of (AList.update new v (AList.delete old kvs)) =
     ((map_of kvs)(old := None))(new \<mapsto> v)"
  by (simp add: update_conv' delete_conv')

lemma rename_key_obj:
  "rename_key new old (JObj kvs) =
     (if new \<in> fst ` set kvs then (JObj kvs, Inr ())
      else case map_of kvs old of
             None \<Rightarrow> (JObj kvs, Inl (KeyError (SKey old)))
           | Some v \<Rightarrow> (JObj (AList.update new v (AList.delete old kvs)), Inr ()))"
  by (simp add: rename_key_def split: option.splits)

lemma rename_key_not_obj:
  "\<not> is_dict json \<Longrightarrow> fst (rename_key new old json) = json"
  by (cases json) (simp_all add: rename_key_def split: sum.splits bool.splits)

lemma rename_key_getitem:
  assumes "k \<noteq> new" "k \<noteq> old"
  shows "getitem (fst (rename_key new old json)) k = getitem json k"
proof (cases json)
  case (JObj kvs)
  then show ?thesis
    using assms by (simp add: rename_key_obj map_of_rename split: option.splits)
qed (simp_all add: rename_key_not_obj)

lemma HourlyForecast_init_cases:
  assumes "snd (HourlyForecast_init env json unit locale) = Inr hf"
  shows "snd (rename_key ''temp_C'' ''tempC'' json) = Inr ()
       \<and> snd (rename_key ''temp_F'' ''tempF'' (fst (rename_key ''temp_C'' ''tempC'' json))) = Inr ()
       \<and> fst (HourlyForecast_init env json unit locale)
           = fst (rename_key ''temp_F'' ''tempF'' (fst (rename_key ''temp_C'' ''tempC'' json)))
       \<and> HourlyForecast_fields env (fst (HourlyForecast_init env json unit locale)) unit locale
           = Inr hf"
  using assms
  by (auto simp: HourlyForecast_init_def split: prod.splits sum.splits)

lemma HourlyForecast_fields_time:
  assumes "HourlyForecast_fields env json unit locale = Inr hf"
  shows "\<exists>t. getitem json ''time'' = Inr t \<and> hourly_time t = Inr (time hf)"
  using assms
  by (auto simp: HourlyForecast_fields_def bnd_Inr_iff base_forecast.defs hourly_forecast.defs)

lemma HourlyForecast_init_time:
  assumes "snd (HourlyForecast_init env json unit locale) = Inr hf"
  shows "\<exists>t. getitem json ''time'' = Inr t \<and> hourly_time t = Inr (time hf)"
proof -
  have f: "HourlyForecast_fields env
             (fst (rename_key ''temp_F'' ''tempF'' (fst (rename_key ''temp_C'' ''tempC'' json))))
             unit locale = Inr hf"
    using HourlyForecast_init_cases[OF assms] by metis
  from HourlyForecast_fields_time[OF f] show ?thesis
    by (simp add: rename_key_getitem)
qed

subsection \<open>The clock time of an hourly record\<close>

text \<open>
  C7. The time of an hourly forecast is what \<open>hourly_time\<close> makes of the \<^verbatim>\<open>time\<close> entry
  of the record. A string shorter than three characters, the empty one and \<^verbatim>\<open>0\<close>
  among them, gives midnight; four digits \<^verbatim>\<open>HHMM\<close> with an hour below 24 and a minute
  below 60 give that hour and minute, and so do three digits \<^verbatim>\<open>HMM\<close> with an hour from
  3 to 9; \<^verbatim>\<open>900\<close> is 09:00 and \<^verbatim>\<open>1430\<close> is 14:30.
\<close>

theorem hourly_time_HHMM:
  "(snd (HourlyForecast_init env json unit locale) = Inr hf \<longrightarrow>
      (\<exists>t. getitem json ''time'' = Inr t \<and> hourly_time t = Inr (time hf)))
   \<and> (length s < 3 \<longrightarrow> hourly_time (JStr s) = Inr (Time 0 0))
   \<and> (h < 24 \<and> m < 60 \<longrightarrow> hourly_time (JStr (pad2 h @ pad2 m)) = Inr (Time h m))
   \<and> (3 \<le> h \<and> h < 10 \<and> m < 60 \<longrightarrow> hourly_time (JStr (dec_digit h # pad2 m)) = Inr (Time h m))
   \<and> hourly_time (JStr ''0'') = Inr (Time 0 0)
   \<and> hourly_time (JStr []) = Inr (Time 0 0)
   \<and> hourly_time (JStr ''900'') = Inr (Time 9 0)
   \<and> hourly_time (JStr ''1430'') = Inr (Time 14 30)"
proof (intro conjI impI)
  assume "snd (HourlyForecast_init env json unit locale) = Inr hf"
  then show "\<exists>t. getitem json ''time'' = Inr t \<and> hourly_time t = Inr (time hf)"
    by (rule HourlyForecast_init_time)
next
  assume "length s < 3"
  then show "hourly_time (JStr s) = Inr (Time 0 0)"
    by (simp add: hourly_time_def)
next
  assume "h < 24 \<and> m < 60"
  then show "hourly_time (JStr (pad2 h @ pad2 m)) = Inr (Time h m)"
    using strptime_HM_4[of h m] by (simp add: hourly_time_def pad2_def)
next
  assume "3 \<le> h \<and> h < 10 \<and> m < 60"
  then show "hourly_time (JStr (dec_digit h # pad2 m)) = Inr (Time h m)"
    using strptime_HM_3[of h m] by (simp add: hourly_time_def pad2_def)
next
  show "hourly_time (JStr ''0'') = Inr (Time 0 0)"
    by (simp add: hourly_time_def)
  show "hourly_time (JStr []) = Inr (Time 0 0)"
    by (simp add: hourly_time_def)
  show "hourly_time (JStr ''900'') = Inr (Time 9 0)"
    by (simp add: hourly_time_def rx_defs)
  show "hourly_time (JStr ''1430'') = Inr (Time 14 30)"
    by (simp add: hourly_time_def rx_defs)
qed

lemma sample_hour_built:
  "snd (HourlyForecast_init sample_env (JObj sample_hourly_kvs) sample_imperial ENGLISH)
     = Inr sample_hour"
  by code_simp

theorem hourly_time_HHMM_witness:
  "snd (HourlyForecast_init sample_env (JObj sample_hourly_kvs) sample_imperial ENGLISH)
     = Inr sample_hour
   \<and> (\<exists>t. getitem (JObj sample_hourly_kvs) ''time'' = Inr t
          \<and> hourly_time t = Inr (time sample_hour))
   \<and> length ''0'' < 3 \<and> hourly_time (JStr ''0'' :: int json) = Inr (Time 0 0)
   \<and> (14::nat) < 24 \<and> (30::nat) < 60
   \<and> hourly_time (JStr (pad2 14 @ pad2 30) :: int json) = Inr (Time 14 30)
   \<and> (3::nat) \<le> 9 \<and> (9::nat) < 10 \<and> (0::nat) < 60
   \<and> hourly_time (JStr (dec_digit 9 # pad2 0) :: int json) = Inr (Time 9 0)"
proof -
  have b: "snd (HourlyForecast_init sample_env (JObj sample_hourly_kvs) sample_imperial ENGLISH)
             = Inr sample_hour"
    by (rule sample_hour_built)
  have l: "length ''0'' < 3"
    by simp
  have n: "(14::nat) < 24 \<and> (30::nat) < 60" "(3::nat) \<le> 9 \<and> (9::nat) < 10 \<and> (0::nat) < 60"
    by simp_all
  show ?thesis
    using hourly_time_HHMM[of sample_env "JObj sample_hourly_kvs" sample_imperial ENGLISH
        sample_hour "''0''" 14 30]
      hourly_time_HHMM[of sample_env "JObj sample_hourly_kvs" sample_imperial ENGLISH
        sample_hour "''0''" 9 0]
      b l n
    by blast
qed

subsection \<open>What the constructor of an hourly forecast does to its dict\<close>

lemma in_keys_iff: "k \<in> fst ` set kvs \<longleftrightarrow> map_of kvs k \<noteq> None"
  by (simp add: map_of_eq_None_iff)

text \<open>
  C10. The constructor of an hourly forecast changes the dict it is given. \<open>json'\<close> is
  the dict after the call and \<open>result\<close> what the call returned or raised. The dict
  stays a dict, and every key but \<^verbatim>\<open>temp_C\<close>, \<^verbatim>\<open>tempC\<close>, \<^verbatim>\<open>temp_F\<close>, \<^verbatim>\<open>tempF\<close> keeps
  its value or its absence. With \<^verbatim>\<open>temp_C\<close> present, \<^verbatim>\<open>temp_C\<close> and \<^verbatim>\<open>tempC\<close> stay as
  they are; with \<^verbatim>\<open>temp_C\<close> absent and \<^verbatim>\<open>tempC\<close> present, \<^verbatim>\<open>tempC\<close> is removed and its
  value stands under \<^verbatim>\<open>temp_C\<close>; with both absent the call raises \<open>KeyError\<close> and the
  dict is unchanged. Once the first statement has passed, the same holds of \<^verbatim>\<open>temp_F\<close>
  and \<^verbatim>\<open>tempF\<close>. A call that returns a forecast has passed both.
\<close>

theorem HourlyForecast_init_renames_keys:
  assumes "json' = fst (HourlyForecast_init env (JObj kvs) unit locale)"
    and "result = snd (HourlyForecast_init env (JObj kvs) unit locale)"
  shows "is_dict json'
    \<and> (\<forall>k. k \<noteq> ''temp_C'' \<and> k \<noteq> ''tempC'' \<and> k \<noteq> ''temp_F'' \<and> k \<noteq> ''tempF''
           \<longrightarrow> entry json' k = entry (JObj kvs) k)
    \<and> (has_key (JObj kvs) ''temp_C'' \<longrightarrow>
         entry json' ''temp_C'' = entry (JObj kvs) ''temp_C''
         \<and> entry json' ''tempC'' = entry (JObj kvs) ''tempC'')
    \<and> (\<not> has_key (JObj kvs) ''temp_C'' \<and> has_key (JObj kvs) ''tempC'' \<longrightarrow>
         entry json' ''temp_C'' = entry (JObj kvs) ''tempC'' \<and> entry json' ''tempC'' = None)
    \<and> (\<not> has_key (JObj kvs) ''temp_C'' \<and> \<not> has_key (JObj kvs) ''tempC'' \<longrightarrow>
         json' = JObj kvs \<and> result = Inl (KeyError (SKey ''tempC'')))
    \<and> (has_key (JObj kvs) ''temp_C'' \<or> has_key (JObj kvs) ''tempC'' \<longrightarrow>
         (has_key (JObj kvs) ''temp_F'' \<longrightarrow>
            entry json' ''temp_F'' = entry (JObj kvs) ''temp_F''
            \<and> entry json' ''tempF'' = entry (JObj kvs) ''tempF'')
       \<and> (\<not> has_key (JObj kvs) ''temp_F'' \<and> has_key (JObj kvs) ''tempF'' \<longrightarrow>
            entry json' ''temp_F'' = entry (JObj kvs) ''tempF'' \<and> entry json' ''tempF'' = None)
       \<and> (\<not> has_key (JObj kvs) ''temp_F'' \<and> \<not> has_key (JObj kvs) ''tempF'' \<longrightarrow>
            entry json' ''temp_F'' = None \<and> entry json' ''tempF'' = None
            \<and> result = Inl (KeyError (SKey ''tempF''))))
    \<and> (\<forall>hf. result = Inr hf \<longrightarrow>
         (has_key (JObj kvs) ''temp_C'' \<or> has_key (JObj kvs) ''tempC'')
       \<and> (has_key (JObj kvs) ''temp_F'' \<or> has_key (JObj kvs) ''tempF''))"
proof (cases "''temp_C'' \<in> fst ` set kvs")
  case c: True
  show ?thesis
  proof (cases "''temp_F'' \<in> fst ` set kvs")
    case f: True
    show ?thesis
      using c f assms by (simp add: HourlyForecast_init_def rename_key_obj)
  next
    case f: False
    show ?thesis
    proof (cases "map_of kvs ''tempF''")
      case None
      then show ?thesis
        using c f assms by (simp add: HourlyForecast_init_def rename_key_obj in_keys_iff)
    next
      case (Some v)
      then show ?thesis
        using c f assms by (simp add: HourlyForecast_init_def rename_key_obj in_keys_iff map_of_rename)
    qed
  qed
next
  case c: False
  show ?thesis
  proof (cases "map_of kvs ''tempC''")
    case None
    then show ?thesis
      using c assms by (simp add: HourlyForecast_init_def rename_key_obj in_keys_iff)
  next
    case cv: (Some v)
    let ?kvs1 = "AList.update ''temp_C'' v (AList.delete ''tempC'' kvs)"
    have k1: "''temp_F'' \<in> fst ` set ?kvs1 \<longleftrightarrow> ''temp_F'' \<in> fst ` set kvs"
      by (simp add: in_keys_iff map_of_rename)
    have m1: "map_of ?kvs1 ''tempF'' = map_of kvs ''tempF''"
      by (simp add: map_of_rename)
    show ?thesis
    proof (cases "''temp_F'' \<in> fst ` set kvs")
      case f: True
      show ?thesis
        using c cv f k1 assms
        by (simp add: HourlyForecast_init_def rename_key_obj in_keys_iff map_of_rename)
    next
      case f: False
      show ?thesis
      proof (cases "map_of kvs ''tempF''")
        case None
        then show ?thesis
          using c cv f k1 m1 assms
          by (simp add: HourlyForecast_init_def rename_key_obj in_keys_iff map_of_rename)
      next
        case (Some w)
        then show ?thesis
          using c cv f k1 m1 assms
          by (simp add: HourlyForecast_init_def rename_key_obj in_keys_iff map_of_rename)
      qed
    qed
  qed
qed

theorem HourlyForecast_init_renames_keys_witness:
  "is_dict (fst (HourlyForecast_init sample_env (JObj sample_hourly_kvs) sample_imperial ENGLISH))
   \<and> snd (HourlyForecast_init sample_env (JObj sample_hourly_kvs) sample_imperial ENGLISH)
       = Inr sample_hour
   \<and> entry (fst (HourlyForecast_init sample_env (JObj sample_hourly_kvs) sample_imperial ENGLISH))
       ''time'' = entry (JObj sample_hourly_kvs) ''time''
   \<and> \<not> has_key (JObj sample_hourly_kvs) ''temp_C'' \<and> has_key (JObj sample_hourly_kvs) ''tempC''
   \<and> entry (fst (HourlyForecast_init sample_env (JObj sample_hourly_kvs) sample_imperial ENGLISH))
       ''temp_C'' = entry (JObj sample_hourly_kvs) ''tempC''
   \<and> entry (fst (HourlyForecast_init sample_env (JObj sample_hourly_kvs) sample_imperial ENGLISH))
       ''tempC'' = None
   \<and> \<not> has_key (JObj sample_hourly_kvs) ''temp_F'' \<and> has_key (JObj sample_hourly_kvs) ''tempF''
   \<and> entry (fst (HourlyForecast_init sample_env (JObj sample_hourly_kvs) sample_imperial ENGLISH))
       ''temp_F'' = entry (JObj sample_hourly_kvs) ''tempF''
   \<and> entry (fst (HourlyForecast_init sample_env (JObj sample_hourly_kvs) sample_imperial ENGLISH))
       ''tempF'' = None"
proof -
  note P = HourlyForecast_init_renames_keys[OF refl refl,
      of sample_env sample_hourly_kvs sample_imperial ENGLISH]
  have c: "\<not> has_key (JObj sample_hourly_kvs) ''temp_C'' \<and> has_key (JObj sample_hourly_kvs) ''tempC''"
    by (simp add: sample_hourly_kvs_def)
  have f: "\<not> has_key (JObj sample_hourly_kvs) ''temp_F'' \<and> has_key (JObj sample_hourly_kvs) ''tempF''"
    by (simp add: sample_hourly_kvs_def)
  have k: "''time'' \<noteq> ''temp_C'' \<and> ''time'' \<noteq> ''tempC'' \<and> ''time'' \<noteq> ''temp_F''
           \<and> ''time'' \<noteq> ''tempF''"
    by simp
  note p1 = P[THEN conjunct1]
  note p2 = P[THEN conjunct2, THEN conjunct1, THEN spec, THEN mp, OF k]
  note p4 = P[THEN conjunct2, THEN conjunct2, THEN conjunct2, THEN conjunct1, THEN mp, OF c]
  note p6 = P[THEN conjunct2, THEN conjunct2, THEN conjunct2, THEN conjunct2, THEN conjunct2,
      THEN conjunct1, THEN mp, OF disjI2, OF c[THEN conjunct2], THEN conjunct2, THEN conjunct1,
      THEN mp, OF f]
  show ?thesis
    by (intro conjI p1 sample_hour_built p2
        c[THEN conjunct1] c[THEN conjunct2] f[THEN conjunct1] f[THEN conjunct2]
        p4[THEN conjunct1] p4[THEN conjunct2] p6[THEN conjunct1] p6[THEN conjunct2])
qed

subsection \<open>The optional times of a day\<close>

lemma rx_match_error: "rx_match p fmt s = Inl e \<Longrightarrow> \<exists>v. e = ValueError v"
  by (auto simp: rx_match_def split: list.splits if_splits)

lemma parse_time_str:
  "parse_time (JStr s) = Inr (case strptime_IMp (JStr s) of Inr t \<Rightarrow> Some t | Inl e \<Rightarrow> None)"
proof (cases "strptime_IMp (JStr s)")
  case (Inl e)
  then obtain v where "e = ValueError v"
    using rx_match_error[of rx_IMp "''%I:%M %p''" s e] by auto
  with Inl show ?thesis
    by (simp add: parse_time_def)
next
  case (Inr t)
  then show ?thesis
    by (simp add: parse_time_def)
qed

lemma hour_digits:
  assumes "1 \<le> h" "h \<le> 12"
  shows "(dec_digit (h div 10) = CHR ''1'' \<and> dec_digit h \<in> set ''012'')
       \<or> (dec_digit (h div 10) = CHR ''0'' \<and> dec_digit h \<in> set ''123456789'')"
proof -
  have "h = 1 \<or> h = 2 \<or> h = 3 \<or> h = 4 \<or> h = 5 \<or> h = 6 \<or> h = 7 \<or> h = 8 \<or> h = 9
        \<or> h = 10 \<or> h = 11 \<or> h = 12"
    using assms by arith
  then show ?thesis
    by (auto simp: dec_digit_def)
qed

lemma rx_I_two:
  assumes "1 \<le> h" "h \<le> 12"
  shows "\<exists>rest. rx_I (dec_digit (h div 10) # dec_digit h # r) = (h, r) # rest"
proof -
  have v: "10 * digit_val (dec_digit (h div 10)) + digit_val (dec_digit h) = h"
    using assms digit_val_dec_digit[of "h div 10"] digit_val_dec_digit[of "h mod 10"]
    by (simp add: dec_digit_def)
  show ?thesis
    using hour_digits[OF assms] v
    by (auto simp: rx_I_def alt2_def alt1_def simp del: set_simps)
qed

lemma rx_I_one:
  assumes "1 \<le> h" "h \<le> 9"
  shows "rx_I (dec_digit h # CHR '':'' # r) = [(h, CHR '':'' # r)]"
proof -
  have "h = 1 \<or> h = 2 \<or> h = 3 \<or> h = 4 \<or> h = 5 \<or> h = 6 \<or> h = 7 \<or> h = 8 \<or> h = 9"
    using assms by arith
  then show ?thesis
    by (auto simp: rx_I_def alt2_def alt1_def dec_digit_def digit_val_def)
qed

lemma rx_M_pad2:
  assumes "m < 60"
  shows "\<exists>rest. rx_M (pad2 m @ r) = (m, r) # rest"
proof -
  let ?c = "dec_digit (m div 10)" and ?d = "dec_digit m"
  have dv: "digit_val ?c = m div 10" "digit_val ?d = m mod 10"
    using assms digit_val_dec_digit[of "m div 10"] digit_val_dec_digit[of "m mod 10"]
    by (simp_all add: dec_digit_def)
  have dg: "is_digit ?c" "is_digit ?d"
    using assms is_digit_dec_digit[of "m div 10"] is_digit_dec_digit[of "m mod 10"]
    by (simp_all add: dec_digit_def)
  show ?thesis
    using rx_M_two[OF dg, of r] assms dv by (simp add: pad2_def)
qed

lemma rx_tail_ampm:
  "rx_then rx_ws (\<lambda>_. rx_then rx_p (\<lambda>pm. rx_ret (f pm))) '' AM'' = [(f False, [])]"
  "rx_then rx_ws (\<lambda>_. rx_then rx_p (\<lambda>pm. rx_ret (f pm))) '' PM'' = [(f True, [])]"
  by (simp_all add: rx_then_def rx_ws_def rx_p_def rx_ret_def is_space_def lower_char_def)

lemma rx_IMp_from_hour:
  assumes i: "rx_I (hs @ CHR '':'' # pad2 m @ w) = (h, CHR '':'' # pad2 m @ w) # r1"
    and m: "m < 60"
    and w: "rx_then rx_ws (\<lambda>_. rx_then rx_p (\<lambda>q. rx_ret (Time (hour12 h q) m))) w
               = [(Time (hour12 h pm) m, [])]"
  shows "strptime_IMp (JStr (hs @ '':'' @ pad2 m @ w)) = Inr (Time (hour12 h pm) m)"
proof -
  obtain r2 where 2: "rx_M (pad2 m @ w) = (m, w) # r2"
    using rx_M_pad2[OF m] by blast
  have l: "rx_lit CHR '':'' (CHR '':'' # pad2 m @ w) = [((), pad2 m @ w)]"
    by (simp add: rx_lit_def)
  have "\<exists>rest. rx_IMp (hs @ CHR '':'' # pad2 m @ w) = (Time (hour12 h pm) m, []) # rest"
    by (simp add: rx_IMp_def rx_then_def[of rx_I] rx_then_def[of "rx_lit _"]
        rx_then_def[of rx_M] i l 2 w)
  then show ?thesis
    by (auto simp: rx_match_def)
qed

lemma strptime_IMp_two:
  assumes "1 \<le> h" "h \<le> 12" "m < 60"
  shows "strptime_IMp (JStr (pad2 h @ '':'' @ pad2 m @ '' '' @ (if pm then ''PM'' else ''AM'')))
         = Inr (Time (hour12 h pm) m)"
proof -
  have i: "\<exists>r1. rx_I (pad2 h @ CHR '':'' # pad2 m @ w) = (h, CHR '':'' # pad2 m @ w) # r1" for w
    using rx_I_two[OF assms(1,2), of "CHR '':'' # pad2 m @ w"] by (simp add: pad2_def[of h])
  show ?thesis
  proof (cases pm)
    case True
    obtain r1 where "rx_I (pad2 h @ CHR '':'' # pad2 m @ '' PM'')
                       = (h, CHR '':'' # pad2 m @ '' PM'') # r1"
      using i by blast
    from rx_IMp_from_hour[OF this assms(3) rx_tail_ampm(2)] True show ?thesis
      by simp
  next
    case False
    obtain r1 where "rx_I (pad2 h @ CHR '':'' # pad2 m @ '' AM'')
                       = (h, CHR '':'' # pad2 m @ '' AM'') # r1"
      using i by blast
    from rx_IMp_from_hour[OF this assms(3) rx_tail_ampm(1)] False show ?thesis
      by simp
  qed
qed

lemma strptime_IMp_one:
  assumes "1 \<le> h" "h \<le> 9" "m < 60"
  shows "strptime_IMp (JStr (dec_digit h # '':'' @ pad2 m @ '' '' @ (if pm then ''PM'' else ''AM'')))
         = Inr (Time (hour12 h pm) m)"
proof -
  have i: "rx_I ([dec_digit h] @ CHR '':'' # pad2 m @ w) = (h, CHR '':'' # pad2 m @ w) # []" for w
    using rx_I_one[OF assms(1,2), of "pad2 m @ w"] by simp
  show ?thesis
  proof (cases pm)
    case True
    from rx_IMp_from_hour[OF i assms(3) rx_tail_ampm(2)] True show ?thesis
      by simp
  next
    case False
    from rx_IMp_from_hour[OF i assms(3) rx_tail_ampm(1)] False show ?thesis
      by simp
  qed
qed

lemma DailyForecast_init_astronomy:
  assumes "DailyForecast_init env json unit locale = Inr d"
  shows "\<exists>a. bnd (getitem json ''astronomy'') getitem0 = Inr a
           \<and> bnd (getitem a ''moonrise'') parse_time = Inr (moonrise d)
           \<and> bnd (getitem a ''moonset'') parse_time = Inr (moonset d)
           \<and> bnd (getitem a ''sunrise'') parse_time = Inr (sunrise d)
           \<and> bnd (getitem a ''sunset'') parse_time = Inr (sunset d)"
proof -
  from assms obtain a mrise mset srise sset rest where
    a: "bnd (getitem json ''astronomy'') getitem0 = Inr a" and
    t: "bnd (getitem a ''moonrise'') parse_time = Inr mrise"
       "bnd (getitem a ''moonset'') parse_time = Inr mset"
       "bnd (getitem a ''sunrise'') parse_time = Inr srise"
       "bnd (getitem a ''sunset'') parse_time = Inr sset" and
    d: "moonrise d = mrise" "moonset d = mset" "sunrise d = srise" "sunset d = sset"
    unfolding DailyForecast_init_def
    by (auto simp: bnd_Inr_iff)
  then show ?thesis by auto
qed

lemma sample_daily_built:
  "DailyForecast_init sample_env (sample_day ''2024-11-05'' ''54'' ''43'') sample_imperial ENGLISH
     = Inr (sample_daily (Date 2024 11 5) 54 43)"
  by code_simp

lemma sample_daily_built2:
  "DailyForecast_init sample_env (sample_day ''2024-11-06'' ''51'' ''40'') sample_imperial ENGLISH
     = Inr (sample_daily (Date 2024 11 6) 51 40)"
  by code_simp

lemma sample_base_built:
  "BaseForecast_init sample_env sample_current sample_imperial ENGLISH
     = Inr \<lparr> ultraviolet = 1, humidity = 71, wind_direction = (''ESE'', 113), kind = 113,
       feels_like = 50, temperature = 52, precipitation = 0, pressure = 30000,
       visibility = 6, wind_speed = 6, description = ''Clear'' \<rparr>"
  by code_simp

lemma sample_coordinates_built:
  "coordinates_of sample_env sample_payload sample_nearest = Inr (52520, 13410)"
  by code_simp

lemma sample_forecast_built:
  "Forecast_init sample_env sample_payload sample_imperial ENGLISH = Inr sample_forecast"
proof -
  have w: "bnd (bnd (getitem sample_payload ''weather'') iter)
             (comprehension (\<lambda>elem. DailyForecast_init sample_env elem sample_imperial ENGLISH))
           = Inr [sample_daily (Date 2024 11 5) 54 43, sample_daily (Date 2024 11 6) 51 40]"
    by (simp add: sample_payload_def sample_weather_def sample_daily_built sample_daily_built2)
  have c: "bnd (getitem sample_payload ''current_condition'') getitem0 = Inr sample_current"
    by (simp add: sample_payload_def)
  have n: "bnd (getitem sample_payload ''nearest_area'') getitem0 = Inr sample_nearest"
    by (simp add: sample_payload_def)
  have p: "int_at sample_env sample_nearest ''population'' = Inr 3426354"
    by code_simp
  have v: "first_value sample_nearest ''region'' = Inr (JStr ''Berlin'')"
      "first_value sample_nearest ''areaName'' = Inr (JStr ''Berlin'')"
      "first_value sample_nearest ''country'' = Inr (JStr ''Germany'')"
    by (simp_all add: sample_nearest_def first_value_def)
  have d: "bnd (getitem sample_current ''localObsDateTime'') strptime_Ymd_IMp
             = Inr (DateTime 2024 11 5 21 34)"
    by code_simp
  show ?thesis
    unfolding Forecast_init_def
    by (simp add: w c n p v d sample_coordinates_built sample_base_built sample_forecast_def
        base_forecast.defs forecast.defs)
qed


subsection \<open>The astronomy times of a day\<close>

text \<open>
  C8. On a str, \<^verbatim>\<open>__parse_time\<close> never raises: it returns the time when
  \<^verbatim>\<open>strptime(_, '%I:%M %p')\<close> accepts the string and \<^verbatim>\<open>None\<close> when it does not. A string
  \<^verbatim>\<open>hh:mm AM\<close> or \<^verbatim>\<open>hh:mm PM\<close> with an hour from 1 to 12 (one digit will do below 10) and
  a minute below 60 gives that time of the 12-hour clock; \<^verbatim>\<open>No moonrise\<close> gives \<^verbatim>\<open>None\<close>.
  The four fields \<^verbatim>\<open>moonrise\<close>, \<^verbatim>\<open>moonset\<close>, \<^verbatim>\<open>sunrise\<close>, \<^verbatim>\<open>sunset\<close> of a daily
  forecast are what \<^verbatim>\<open>__parse_time\<close> returns on the entries of \<^verbatim>\<open>astronomy[0]\<close>.
\<close>

theorem parse_time_absent:
  "parse_time (JStr s)
     = Inr (case strptime_IMp (JStr s) of Inr t \<Rightarrow> Some t | Inl e \<Rightarrow> None)
   \<and> (1 \<le> h \<and> h \<le> 12 \<and> m < 60 \<longrightarrow>
        parse_time (JStr (pad2 h @ '':'' @ pad2 m @ '' '' @ (if pm then ''PM'' else ''AM'')))
          = Inr (Some (Time (hour12 h pm) m)))
   \<and> (1 \<le> h \<and> h \<le> 9 \<and> m < 60 \<longrightarrow>
        parse_time (JStr (dec_digit h # '':'' @ pad2 m @ '' '' @ (if pm then ''PM'' else ''AM'')))
          = Inr (Some (Time (hour12 h pm) m)))
   \<and> parse_time (JStr ''No moonrise'') = Inr None
   \<and> (DailyForecast_init env json unit loc = Inr d
        \<and> bnd (getitem json ''astronomy'') getitem0 = Inr a \<longrightarrow>
          bnd (getitem a ''moonrise'') parse_time = Inr (moonrise d)
        \<and> bnd (getitem a ''moonset'') parse_time = Inr (moonset d)
        \<and> bnd (getitem a ''sunrise'') parse_time = Inr (sunrise d)
        \<and> bnd (getitem a ''sunset'') parse_time = Inr (sunset d))"
proof (intro conjI impI)
  show "parse_time (JStr s)
          = Inr (case strptime_IMp (JStr s) of Inr t \<Rightarrow> Some t | Inl e \<Rightarrow> None)"
    by (rule parse_time_str)
next
  assume "1 \<le> h \<and> h \<le> 12 \<and> m < 60"
  then show "parse_time (JStr (pad2 h @ '':'' @ pad2 m @ '' '' @ (if pm then ''PM'' else ''AM'')))
               = Inr (Some (Time (hour12 h pm) m))"
    using strptime_IMp_two[of h m pm] by (simp add: parse_time_def)
next
  assume "1 \<le> h \<and> h \<le> 9 \<and> m < 60"
  then show "parse_time (JStr (dec_digit h # '':'' @ pad2 m @ '' '' @ (if pm then ''PM'' else ''AM'')))
               = Inr (Some (Time (hour12 h pm) m))"
    using strptime_IMp_one[of h m pm] by (simp add: parse_time_def)
next
  show "parse_time (JStr ''No moonrise'') = Inr None"
    by (simp add: parse_time_def rx_defs)
next
  assume "DailyForecast_init env json unit loc = Inr d
            \<and> bnd (getitem json ''astronomy'') getitem0 = Inr a"
  then have ast: "bnd (getitem a ''moonrise'') parse_time = Inr (moonrise d)
      \<and> bnd (getitem a ''moonset'') parse_time = Inr (moonset d)
      \<and> bnd (getitem a ''sunrise'') parse_time = Inr (sunrise d)
      \<and> bnd (getitem a ''sunset'') parse_time = Inr (sunset d)"
    using DailyForecast_init_astronomy[of env json unit loc d] by auto
  from ast show "bnd (getitem a ''moonrise'') parse_time = Inr (moonrise d)" by simp
  from ast show "bnd (getitem a ''moonset'') parse_time = Inr (moonset d)" by simp
  from ast show "bnd (getitem a ''sunrise'') parse_time = Inr (sunrise d)" by simp
  from ast show "bnd (getitem a ''sunset'') parse_time = Inr (sunset d)" by simp
qed

theorem parse_time_absent_witness:
  "DailyForecast_init sample_env (sample_day ''2024-11-05'' ''54'' ''43'') sample_imperial ENGLISH
     = Inr (sample_daily (Date 2024 11 5) 54 43)
   \<and> bnd (getitem (sample_day ''2024-11-05'' ''54'' ''43'') ''astronomy'') getitem0
       = Inr sample_astronomy
   \<and> getitem sample_astronomy ''moonrise'' = Inr (JStr ''No moonrise'')
   \<and> bnd (getitem sample_astronomy ''moonrise'') parse_time = Inr None
   \<and> moonrise (sample_daily (Date 2024 11 5) 54 43) = None
   \<and> getitem sample_astronomy ''moonset'' = Inr (JStr ''05:48 PM'')
   \<and> bnd (getitem sample_astronomy ''moonset'') parse_time = Inr (Some (Time 17 48))
   \<and> (1::nat) \<le> 5 \<and> (5::nat) \<le> 12 \<and> (48::nat) < 60
   \<and> parse_time (JStr (pad2 5 @ '':'' @ pad2 48 @ '' '' @ (if True then ''PM'' else ''AM''))
        :: int json) = Inr (Some (Time (hour12 5 True) 48))
   \<and> (5::nat) \<le> 9
   \<and> parse_time (JStr (dec_digit 5 # '':'' @ pad2 48 @ '' '' @ (if True then ''PM'' else ''AM''))
        :: int json) = Inr (Some (Time (hour12 5 True) 48))"
proof -
  note P = parse_time_absent[of "''x''" 5 48 True sample_env
      "sample_day ''2024-11-05'' ''54'' ''43''" sample_imperial ENGLISH
      "sample_daily (Date 2024 11 5) 54 43" sample_astronomy]
  have a: "bnd (getitem (sample_day ''2024-11-05'' ''54'' ''43'') ''astronomy'') getitem0
             = Inr sample_astronomy"
    by (simp add: sample_day_def)
  have n: "(1::nat) \<le> 5 \<and> (5::nat) \<le> 12 \<and> (48::nat) < 60" "(1::nat) \<le> 5 \<and> (5::nat) \<le> 9 \<and> (48::nat) < 60"
    by simp_all
  note p2 = P[THEN conjunct2, THEN conjunct1, THEN mp, OF n(1)]
  note p3 = P[THEN conjunct2, THEN conjunct2, THEN conjunct1, THEN mp, OF n(2)]
  note p5 = P[THEN conjunct2, THEN conjunct2, THEN conjunct2, THEN conjunct2, THEN mp,
      OF conjI, OF sample_daily_built a]
  have r: "moonrise (sample_daily (Date 2024 11 5) 54 43) = None"
      "moonset (sample_daily (Date 2024 11 5) 54 43) = Some (Time 17 48)"
    by (simp_all add: sample_daily_def)
  have g: "getitem sample_astronomy ''moonrise'' = Inr (JStr ''No moonrise'')"
      "getitem sample_astronomy ''moonset'' = Inr (JStr ''05:48 PM'')"
    by (simp_all add: sample_astronomy_def)
  show ?thesis
    using p2 p3 p5 r g sample_daily_built a n by simp
qed

subsection \<open>The coordinates\<close>

lemma next_LatLon_none:
  assumes "\<forall>x\<in>set xs. getitem x ''type'' \<noteq> Inr (JStr ''LatLon'')"
  shows "\<exists>e. next_LatLon xs = Inl e"
  using assms
proof (induction xs)
  case Nil
  show ?case by simp
next
  case (Cons x xs)
  show ?case
  proof (cases "getitem x ''type''")
    case (Inl e)
    then show ?thesis by simp
  next
    case (Inr t)
    with Cons show ?thesis by simp
  qed
qed

lemma next_LatLon_first_or_error:
  assumes "\<forall>p\<in>set pre. getitem p ''type'' \<noteq> Inr (JStr ''LatLon'')"
    and "getitem x ''type'' = Inr (JStr ''LatLon'')"
  shows "next_LatLon (pre @ x # post) = Inr x \<or> (\<exists>e. next_LatLon (pre @ x # post) = Inl e)"
  using assms
proof (induction pre)
  case Nil
  then show ?case by simp
next
  case (Cons p pre)
  show ?case
  proof (cases "getitem p ''type''")
    case (Inl e)
    then show ?thesis by simp
  next
    case (Inr t)
    with Cons show ?thesis by simp
  qed
qed

lemma next_LatLon_first:
  assumes "\<forall>p\<in>set pre. \<exists>t. getitem p ''type'' = Inr t \<and> t \<noteq> JStr ''LatLon''"
    and "getitem x ''type'' = Inr (JStr ''LatLon'')"
  shows "next_LatLon (pre @ x # post) = Inr x"
  using assms by (induction pre) auto

lemma coordinates_of_fallback:
  "request_coordinates env json = Inl e \<Longrightarrow>
     coordinates_of env json nearest = nearest_coordinates env nearest"
  by (simp add: coordinates_of_def)

lemma Forecast_init_coordinates:
  assumes "Forecast_init env json unit loc = Inr fc"
  shows "\<exists>nearest. bnd (getitem json ''nearest_area'') getitem0 = Inr nearest
           \<and> coordinates_of env json nearest = Inr (coordinates fc)"
  using assms unfolding Forecast_init_def
  by (auto simp: bnd_Inr_iff base_forecast.defs forecast.defs)

text \<open>
  C6. The coordinates of a forecast are what the \<^verbatim>\<open>try\<close> block of the constructor makes
  of the document and of \<^verbatim>\<open>nearest_area[0]\<close>. They are
  \<^verbatim>\<open>(float(nearest['latitude']), float(nearest['longitude']))\<close> when the document has no
  \<^verbatim>\<open>request\<close> to iterate over, when no element of \<^verbatim>\<open>request\<close> has the type \<^verbatim>\<open>LatLon\<close>, and
  when the regular expression does not match the query of the first element of type
  \<^verbatim>\<open>LatLon\<close>. When the elements before the first \<^verbatim>\<open>LatLon\<close> element all have a type, the
  expression matches its query and both groups convert, the coordinates are the two
  groups as floats.
\<close>

theorem coordinates_fallback:
  "(Forecast_init env json unit loc = Inr fc
      \<and> bnd (getitem json ''nearest_area'') getitem0 = Inr nearest \<longrightarrow>
        coordinates_of env json nearest = Inr (coordinates fc))
   \<and> (float_at env nearest ''latitude'' = Inr lat0 \<and> float_at env nearest ''longitude'' = Inr lon0
        \<longrightarrow> nearest_coordinates env nearest = Inr (lat0, lon0))
   \<and> ((\<forall>xs. bnd (getitem json ''request'') iter \<noteq> Inr xs) \<longrightarrow>
        coordinates_of env json nearest = nearest_coordinates env nearest)
   \<and> (bnd (getitem json ''request'') iter = Inr xs
        \<and> (\<forall>x\<in>set xs. getitem x ''type'' \<noteq> Inr (JStr ''LatLon'')) \<longrightarrow>
        coordinates_of env json nearest = nearest_coordinates env nearest)
   \<and> (bnd (getitem json ''request'') iter = Inr (pre @ x # post)
        \<and> (\<forall>p\<in>set pre. getitem p ''type'' \<noteq> Inr (JStr ''LatLon''))
        \<and> getitem x ''type'' = Inr (JStr ''LatLon'')
        \<and> getitem x ''query'' = Inr (JStr q) \<and> LATLON_REGEX_match env q = None \<longrightarrow>
        coordinates_of env json nearest = nearest_coordinates env nearest)
   \<and> (bnd (getitem json ''request'') iter = Inr (pre @ x # post)
        \<and> (\<forall>p\<in>set pre. \<exists>t. getitem p ''type'' = Inr t \<and> t \<noteq> JStr ''LatLon'')
        \<and> getitem x ''type'' = Inr (JStr ''LatLon'')
        \<and> getitem x ''query'' = Inr (JStr q)
        \<and> LATLON_REGEX_match env q = Some (Some a, Some b)
        \<and> float_str env a = Inr lat \<and> float_str env b = Inr lon \<longrightarrow>
        coordinates_of env json nearest = Inr (lat, lon))"
proof (intro conjI impI)
  assume "Forecast_init env json unit loc = Inr fc
            \<and> bnd (getitem json ''nearest_area'') getitem0 = Inr nearest"
  then show "coordinates_of env json nearest = Inr (coordinates fc)"
    using Forecast_init_coordinates[of env json unit loc fc] by auto
next
  assume "float_at env nearest ''latitude'' = Inr lat0
            \<and> float_at env nearest ''longitude'' = Inr lon0"
  then show "nearest_coordinates env nearest = Inr (lat0, lon0)"
    by (simp add: nearest_coordinates_def)
next
  assume "\<forall>xs. bnd (getitem json ''request'') iter \<noteq> Inr xs"
  then obtain e where "bnd (getitem json ''request'') iter = Inl e"
    by (cases "bnd (getitem json ''request'') iter") auto
  then have "request_coordinates env json = Inl e"
    by (simp add: request_coordinates_def)
  then show "coordinates_of env json nearest = nearest_coordinates env nearest"
    by (rule coordinates_of_fallback)
next
  assume h: "bnd (getitem json ''request'') iter = Inr xs
               \<and> (\<forall>x\<in>set xs. getitem x ''type'' \<noteq> Inr (JStr ''LatLon''))"
  then obtain e where "next_LatLon xs = Inl e"
    using next_LatLon_none[of xs] by blast
  with h have "request_coordinates env json = Inl e"
    by (simp add: request_coordinates_def)
  then show "coordinates_of env json nearest = nearest_coordinates env nearest"
    by (rule coordinates_of_fallback)
next
  assume h: "bnd (getitem json ''request'') iter = Inr (pre @ x # post)
        \<and> (\<forall>p\<in>set pre. getitem p ''type'' \<noteq> Inr (JStr ''LatLon''))
        \<and> getitem x ''type'' = Inr (JStr ''LatLon'')
        \<and> getitem x ''query'' = Inr (JStr q) \<and> LATLON_REGEX_match env q = None"
  then consider "next_LatLon (pre @ x # post) = Inr x"
    | e where "next_LatLon (pre @ x # post) = Inl e"
    using next_LatLon_first_or_error[of pre x post] by blast
  then have "\<exists>e. request_coordinates env json = Inl e"
  proof cases
    case 1
    with h show ?thesis
      by (simp add: request_coordinates_def)
  next
    case 2
    with h show ?thesis
      by (simp add: request_coordinates_def)
  qed
  then show "coordinates_of env json nearest = nearest_coordinates env nearest"
    using coordinates_of_fallback by blast
next
  assume h: "bnd (getitem json ''request'') iter = Inr (pre @ x # post)
        \<and> (\<forall>p\<in>set pre. \<exists>t. getitem p ''type'' = Inr t \<and> t \<noteq> JStr ''LatLon'')
        \<and> getitem x ''type'' = Inr (JStr ''LatLon'')
        \<and> getitem x ''query'' = Inr (JStr q)
        \<and> LATLON_REGEX_match env q = Some (Some a, Some b)
        \<and> float_str env a = Inr lat \<and> float_str env b = Inr lon"
  then have "next_LatLon (pre @ x # post) = Inr x"
    using next_LatLon_first[of pre x post] by blast
  with h have "request_coordinates env json = Inr (lat, lon)"
    by (simp add: request_coordinates_def float_group_def)
  then show "coordinates_of env json nearest = Inr (lat, lon)"
    by (simp add: coordinates_of_def)
qed


lemma sample_nearest_area:
  "bnd (getitem sample_payload ''nearest_area'') getitem0 = Inr sample_nearest"
  by (simp add: sample_payload_def)

theorem coordinates_fallback_witness:
  "coordinates_of sample_env sample_payload sample_nearest = Inr (coordinates sample_forecast)
   \<and> nearest_coordinates sample_env sample_nearest = Inr (52517, 13400)
   \<and> coordinates_of sample_env (JObj []) sample_nearest
       = nearest_coordinates sample_env sample_nearest
   \<and> coordinates_of sample_env sample_request_by_name sample_nearest
       = nearest_coordinates sample_env sample_nearest
   \<and> coordinates_of sample_env sample_request_unparsable sample_nearest
       = nearest_coordinates sample_env sample_nearest
   \<and> coordinates_of sample_env sample_payload sample_nearest = Inr (52520, 13410)"
proof -
  let ?x1 = "JObj [(''query'', JStr ''Berlin''), (''type'', JStr ''City'')] :: int json"
  let ?x2 = "JObj [(''query'', JStr ''somewhere''), (''type'', JStr ''LatLon'')] :: int json"
  let ?x3 = "JObj [(''query'', JStr ''Lat 52.52 and Lon 13.41''), (''type'', JStr ''LatLon'')]
               :: int json"
  have h1: "Forecast_init sample_env sample_payload sample_imperial ENGLISH = Inr sample_forecast
            \<and> bnd (getitem sample_payload ''nearest_area'') getitem0 = Inr sample_nearest"
    by (simp add: sample_forecast_built sample_nearest_area)
  have h2: "float_at sample_env sample_nearest ''latitude'' = Inr 52517
            \<and> float_at sample_env sample_nearest ''longitude'' = Inr 13400"
    by code_simp
  have h3: "\<forall>xs. bnd (getitem (JObj [] :: int json) ''request'') iter \<noteq> Inr xs"
    by simp
  have h4: "bnd (getitem sample_request_by_name ''request'') iter = Inr [?x1]
            \<and> (\<forall>x\<in>set [?x1]. getitem x ''type'' \<noteq> Inr (JStr ''LatLon''))"
    by (simp add: sample_request_by_name_def)
  have h5: "bnd (getitem sample_request_unparsable ''request'') iter = Inr ([] @ ?x2 # [])
            \<and> (\<forall>p\<in>set []. getitem p ''type'' \<noteq> Inr (JStr ''LatLon''))
            \<and> getitem ?x2 ''type'' = Inr (JStr ''LatLon'')
            \<and> getitem ?x2 ''query'' = Inr (JStr ''somewhere'')
            \<and> LATLON_REGEX_match sample_env ''somewhere'' = None"
    by (simp add: sample_request_unparsable_def sample_env_def sample_latlon_def)
  have h6: "bnd (getitem sample_payload ''request'') iter = Inr ([] @ ?x3 # [])
            \<and> (\<forall>p\<in>set []. \<exists>t. getitem p ''type'' = Inr t \<and> t \<noteq> JStr ''LatLon'')
            \<and> getitem ?x3 ''type'' = Inr (JStr ''LatLon'')
            \<and> getitem ?x3 ''query'' = Inr (JStr ''Lat 52.52 and Lon 13.41'')
            \<and> LATLON_REGEX_match sample_env ''Lat 52.52 and Lon 13.41''
                = Some (Some ''52.52'', Some ''13.41'')
            \<and> float_str sample_env ''52.52'' = Inr 52520
            \<and> float_str sample_env ''13.41'' = Inr 13410"
  proof -
    have "float_str sample_env ''52.52'' = Inr 52520" "float_str sample_env ''13.41'' = Inr 13410"
      by code_simp+
    moreover have "LATLON_REGEX_match sample_env ''Lat 52.52 and Lon 13.41''
                     = Some (Some ''52.52'', Some ''13.41'')"
      by (simp add: sample_env_def sample_latlon_def)
    ultimately show ?thesis
      by (simp add: sample_payload_def sample_request_def)
  qed
  note c1 = coordinates_fallback[where env = sample_env and json = sample_payload
      and unit = sample_imperial and loc = ENGLISH and fc = sample_forecast
      and nearest = sample_nearest, THEN conjunct1, THEN mp, OF h1]
  note c2 = coordinates_fallback[where env = sample_env and nearest = sample_nearest
      and ?lat0.0 = 52517 and ?lon0.0 = 13400,
      THEN conjunct2, THEN conjunct1, THEN mp, OF h2]
  note c3 = coordinates_fallback[where env = sample_env and json = "JObj []"
      and nearest = sample_nearest,
      THEN conjunct2, THEN conjunct2, THEN conjunct1, THEN mp, OF h3]
  note c4 = coordinates_fallback[where env = sample_env and json = sample_request_by_name
      and nearest = sample_nearest and xs = "[?x1]",
      THEN conjunct2, THEN conjunct2, THEN conjunct2, THEN conjunct1, THEN mp, OF h4]
  note c5 = coordinates_fallback[where env = sample_env and json = sample_request_unparsable
      and nearest = sample_nearest and pre = "[]" and x = ?x2 and post = "[]"
      and q = "''somewhere''",
      THEN conjunct2, THEN conjunct2, THEN conjunct2, THEN conjunct2, THEN conjunct1,
      THEN mp, OF h5]
  note c6 = coordinates_fallback[where env = sample_env and json = sample_payload
      and nearest = sample_nearest and pre = "[]" and x = ?x3 and post = "[]"
      and q = "''Lat 52.52 and Lon 13.41''" and a = "''52.52''" and b = "''13.41''"
      and lat = 52520 and lon = 13410,
      THEN conjunct2, THEN conjunct2, THEN conjunct2, THEN conjunct2, THEN conjunct2,
      THEN mp, OF h6]
  show ?thesis
    by (intro conjI c1 c2 c3 c4 c5 c6)
qed

subsection \<open>The retry loop\<close>

lemma fetch_loop_step:
  assumes "a < m"
  shows "fetch_loop env self net url raw m [a ..< m] tr =
     (case attempt_body env self raw (net url a) of
        Inr v \<Rightarrow> (tr\<lparr>attempts := attempts tr + 1\<rparr>, Inr v)
      | Inl (HTTPStatusError r) \<Rightarrow>
          if a = m - 1 then (tr\<lparr>attempts := attempts tr + 1\<rparr>, Inl (HTTPStatusError r))
          else fetch_loop env self net url raw m [Suc a ..< m]
                 (tr\<lparr>attempts := attempts tr + 1, sleeps := sleeps tr @ [a + 1]\<rparr>)
      | Inl e \<Rightarrow> (tr\<lparr>attempts := attempts tr + 1\<rparr>, Inl e))"
  using assms by (simp add: upt_conv_Cons Let_def split: sum.splits pyexn.splits)

lemma fetch_loop_last:
  assumes "Suc a = m"
  shows "fetch_loop env self net url raw m [a ..< m] tr =
           (tr\<lparr>attempts := attempts tr + 1\<rparr>, attempt_body env self raw (net url a))"
proof -
  have "a < m" "a = m - 1"
    using assms by simp_all
  then show ?thesis
    using fetch_loop_step[of a m env self net url raw tr]
    by (auto split: sum.splits pyexn.splits)
qed

lemma fetch_loop_retry:
  assumes "Suc a < m" "attempt_body env self raw (net url a) = Inl (HTTPStatusError r)"
  shows "fetch_loop env self net url raw m [a ..< m] tr =
           fetch_loop env self net url raw m [Suc a ..< m]
             (tr\<lparr>attempts := attempts tr + 1, sleeps := sleeps tr @ [a + 1]\<rparr>)"
proof -
  have "a < m" "a \<noteq> m - 1"
    using assms(1) by simp_all
  then show ?thesis
    using fetch_loop_step[of a m env self net url raw tr] assms(2)
    by simp
qed

lemma fetch_loop_run:
  assumes "a < m" "attempts tr = a" "sleeps tr = [1 ..< Suc a]"
    and "fetch_loop env self net url raw m [a ..< m] tr = (tr', res)"
  shows "a < attempts tr' \<and> attempts tr' \<le> m \<and> sleeps tr' = [1 ..< attempts tr']
     \<and> res = attempt_body env self raw (net url (attempts tr' - 1))
     \<and> (\<forall>i. a \<le> i \<and> i < attempts tr' - 1 \<longrightarrow>
           (\<exists>r. attempt_body env self raw (net url i) = Inl (HTTPStatusError r)))
     \<and> (attempts tr' < m \<longrightarrow> (\<forall>r. res \<noteq> Inl (HTTPStatusError r)))"
  using assms
proof (induction "m - a" arbitrary: a tr)
  case 0
  then show ?case by simp
next
  case (Suc n)
  let ?ab = "attempt_body env self raw (net url a)"
  let ?tr1 = "tr\<lparr>attempts := attempts tr + 1\<rparr>"
  note step = fetch_loop_step[OF Suc.prems(1), of env self net url raw tr]
  show ?case
  proof (cases ?ab)
    case (Inr v)
    with step Suc.prems show ?thesis
      by auto
  next
    case (Inl e)
    show ?thesis
    proof (cases "\<exists>r. e = HTTPStatusError r")
      case False
      with Inl step Suc.prems(4) have "tr' = ?tr1" "res = Inl e"
        by (auto split: pyexn.splits)
      with Inl False Suc.prems show ?thesis
        by auto
    next
      case True
      then obtain r where e: "e = HTTPStatusError r"
        by blast
      show ?thesis
      proof (cases "a = m - 1")
        case True
        with Inl e step Suc.prems(4) have "tr' = ?tr1" "res = Inl e"
          by auto
        with Inl True Suc.prems show ?thesis
          by auto
      next
        case False
        let ?tr2 = "tr\<lparr>attempts := attempts tr + 1, sleeps := sleeps tr @ [a + 1]\<rparr>"
        from False Suc.prems(1) have lt: "Suc a < m"
          by arith
        from Suc.hyps(2) have n: "n = m - Suc a"
          by arith
        have run: "fetch_loop env self net url raw m [Suc a ..< m] ?tr2 = (tr', res)"
          using Inl e step Suc.prems(4) False by simp
        have inv: "attempts ?tr2 = Suc a" "sleeps ?tr2 = [1 ..< Suc (Suc a)]"
          using Suc.prems(2,3) by simp_all
        note IH = Suc.hyps(1)[OF n lt inv run]
        have here: "\<exists>r. attempt_body env self raw (net url a) = Inl (HTTPStatusError r)"
          using Inl e by simp
        have all: "\<forall>i. a \<le> i \<and> i < attempts tr' - 1 \<longrightarrow>
           (\<exists>r. attempt_body env self raw (net url i) = Inl (HTTPStatusError r))"
        proof (intro allI impI)
          fix i
          assume i: "a \<le> i \<and> i < attempts tr' - 1"
          show "\<exists>r. attempt_body env self raw (net url i) = Inl (HTTPStatusError r)"
          proof (cases "i = a")
            case True
            with here show ?thesis by simp
          next
            case False
            with i have "Suc a \<le> i \<and> i < attempts tr' - 1"
              by arith
            with IH show ?thesis by blast
          qed
        qed
        from IH have "a < attempts tr'"
          by arith
        with IH all show ?thesis
          by blast
      qed
    qed
  qed
qed

lemma attempt_body_status_failure:
  assumes "status_failure r"
  shows "attempt_body env self raw (Response r) = Inl (HTTPStatusError r)"
proof -
  have "raise_for_status env r = Some (HTTPStatusError r)"
    using assms by (simp add: raise_for_status_def status_failure_def)
  moreover have "\<not> (status_code r = 404 \<and> response_text r \<noteq> [])"
    using assms by (simp add: status_failure_def)
  ultimately show ?thesis
    unfolding attempt_body_def by (simp only: outcome.case if_False option.case)
qed

lemma attempt_body_ok:
  assumes "200 \<le> status_code r \<and> status_code r < 300 \<or> status_code r = 404 \<and> response_text r \<noteq> []"
  shows "attempt_body env self raw (Response r) = response_content env self raw r"
  using assms by (auto simp: attempt_body_def raise_for_status_def)

lemma response_content_not_status_error:
  "response_content env self raw r \<noteq> Inl (HTTPStatusError r')"
  by (simp add: response_content_def split: sum.splits)

text \<open>
  C3. A call of \<^verbatim>\<open>_fetch_url\<close> with the default of three attempts, \<open>tr\<close> being what it
  did and \<open>res\<close> what it returned or raised. It sends at least one and at most three
  GETs; after the \<open>k\<close>-th GET that is not the last it sleeps \<open>k\<close> seconds, so the
  sleeps are 1, 2, ... up to the number of GETs less one; every GET before the last
  ended in \<^verbatim>\<open>HTTPStatusError\<close>, and the call returns or raises what the last GET gave,
  which is an \<^verbatim>\<open>HTTPStatusError\<close> only at the third. A response with a status from 400
  to 599, a 404 with text apart, makes its GET end in \<^verbatim>\<open>HTTPStatusError\<close>. Three such
  responses give three GETs, sleeps of 1 and 2 seconds, and the error of the third;
  two of them and then a 2xx give three GETs, the same sleeps, and the parse of the
  third body.
\<close>

theorem fetch_url_retries:
  assumes "fetch_url env self net url raw 3 = (tr, res)"
  shows "1 \<le> attempts tr \<and> attempts tr \<le> 3 \<and> sleeps tr = [1 ..< attempts tr]
     \<and> res = attempt_body env self raw (net url (attempts tr - 1))
     \<and> (\<forall>i. i < attempts tr - 1 \<longrightarrow>
           (\<exists>r. attempt_body env self raw (net url i) = Inl (HTTPStatusError r)))
     \<and> (attempts tr < 3 \<longrightarrow> (\<forall>r. res \<noteq> Inl (HTTPStatusError r)))
     \<and> (\<forall>i r. net url i = Response r \<and> status_failure r \<longrightarrow>
           attempt_body env self raw (net url i) = Inl (HTTPStatusError r))
     \<and> (\<forall>r0 r1 r2. net url 0 = Response r0 \<and> net url 1 = Response r1 \<and> net url 2 = Response r2
           \<and> status_failure r0 \<and> status_failure r1 \<and> status_failure r2 \<longrightarrow>
           tr = \<lparr> attempts = 3, sleeps = [1, 2] \<rparr> \<and> res = Inl (HTTPStatusError r2))
     \<and> (\<forall>r0 r1 r2. net url 0 = Response r0 \<and> net url 1 = Response r1 \<and> net url 2 = Response r2
           \<and> status_failure r0 \<and> status_failure r1
           \<and> 200 \<le> status_code r2 \<and> status_code r2 < 300 \<longrightarrow>
           tr = \<lparr> attempts = 3, sleeps = [1, 2] \<rparr>
           \<and> res = response_content env self raw r2)"
proof -
  have run: "fetch_loop env self net url raw 3 [0 ..< 3] \<lparr> attempts = 0, sleeps = [] \<rparr> = (tr, res)"
    using assms by (simp add: fetch_url_def)
  have g: "0 < attempts tr \<and> attempts tr \<le> 3 \<and> sleeps tr = [1 ..< attempts tr]
     \<and> res = attempt_body env self raw (net url (attempts tr - 1))
     \<and> (\<forall>i. 0 \<le> i \<and> i < attempts tr - 1 \<longrightarrow>
           (\<exists>r. attempt_body env self raw (net url i) = Inl (HTTPStatusError r)))
     \<and> (attempts tr < 3 \<longrightarrow> (\<forall>r. res \<noteq> Inl (HTTPStatusError r)))"
    by (rule fetch_loop_run[OF _ _ _ run]) simp_all
  have f: "attempt_body env self raw (net url i) = Inl (HTTPStatusError r)"
    if "net url i = Response r \<and> status_failure r" for i r
    using that attempt_body_status_failure[of r env self raw] by simp
  have three: "tr = \<lparr> attempts = 3, sleeps = [1, 2] \<rparr>
               \<and> res = attempt_body env self raw (net url 2)"
    if "net url 0 = Response r0 \<and> net url 1 = Response r1
        \<and> status_failure r0 \<and> status_failure r1" for r0 r1
  proof -
    have a0: "attempt_body env self raw (net url 0) = Inl (HTTPStatusError r0)"
      and a1: "attempt_body env self raw (net url (Suc 0)) = Inl (HTTPStatusError r1)"
      using that f[of 0 r0] f[of 1 r1] by simp_all
    have "fetch_loop env self net url raw 3 [0 ..< 3] \<lparr> attempts = 0, sleeps = [] \<rparr>
            = fetch_loop env self net url raw 3 [Suc 0 ..< 3] \<lparr> attempts = 1, sleeps = [1] \<rparr>"
      using fetch_loop_retry[of 0 3 env self raw net url r0 "\<lparr> attempts = 0, sleeps = [] \<rparr>"] a0
      by simp
    also have "\<dots> = fetch_loop env self net url raw 3 [Suc (Suc 0) ..< 3]
                       \<lparr> attempts = 2, sleeps = [1, 2] \<rparr>"
      using fetch_loop_retry[of "Suc 0" 3 env self raw net url r1 "\<lparr> attempts = 1, sleeps = [1] \<rparr>"] a1
      by (simp add: numeral_2_eq_2)
    also have "\<dots> = (\<lparr> attempts = 3, sleeps = [1, 2] \<rparr>,
                      attempt_body env self raw (net url (Suc (Suc 0))))"
      using fetch_loop_last[of "Suc (Suc 0)" 3 env self net url raw
          "\<lparr> attempts = 2, sleeps = [1, 2] \<rparr>"]
      by (simp add: numeral_2_eq_2 numeral_3_eq_3)
    finally show ?thesis
      using run by (simp add: numeral_2_eq_2)
  qed
  have s1: "tr = \<lparr> attempts = 3, sleeps = [1, 2] \<rparr> \<and> res = Inl (HTTPStatusError r2)"
    if "net url 0 = Response r0 \<and> net url 1 = Response r1 \<and> net url 2 = Response r2
           \<and> status_failure r0 \<and> status_failure r1 \<and> status_failure r2" for r0 r1 r2
    using three[of r0 r1] f[of 2 r2] that by simp
  have s2: "tr = \<lparr> attempts = 3, sleeps = [1, 2] \<rparr>
           \<and> res = response_content env self raw r2"
    if "net url 0 = Response r0 \<and> net url 1 = Response r1 \<and> net url 2 = Response r2
           \<and> status_failure r0 \<and> status_failure r1
           \<and> 200 \<le> status_code r2 \<and> status_code r2 < 300" for r0 r1 r2
    using three[of r0 r1] that attempt_body_ok[of r2 env self raw] by simp
  have c1: "1 \<le> attempts tr"
    using g[THEN conjunct1] by simp
  note c2 = g[THEN conjunct2, THEN conjunct1]
  note c3 = g[THEN conjunct2, THEN conjunct2, THEN conjunct1]
  note c4 = g[THEN conjunct2, THEN conjunct2, THEN conjunct2, THEN conjunct1]
  have c5: "\<forall>i. i < attempts tr - 1 \<longrightarrow>
           (\<exists>r. attempt_body env self raw (net url i) = Inl (HTTPStatusError r))"
    using g[THEN conjunct2, THEN conjunct2, THEN conjunct2, THEN conjunct2, THEN conjunct1]
    by simp
  note c6 = g[THEN conjunct2, THEN conjunct2, THEN conjunct2, THEN conjunct2, THEN conjunct2]
  have c7: "\<forall>i r. net url i = Response r \<and> status_failure r \<longrightarrow>
           attempt_body env self raw (net url i) = Inl (HTTPStatusError r)"
    using f by (intro allI impI)
  have c8: "\<forall>r0 r1 r2. net url 0 = Response r0 \<and> net url 1 = Response r1 \<and> net url 2 = Response r2
           \<and> status_failure r0 \<and> status_failure r1 \<and> status_failure r2 \<longrightarrow>
           tr = \<lparr> attempts = 3, sleeps = [1, 2] \<rparr> \<and> res = Inl (HTTPStatusError r2)"
    using s1 by (intro allI impI)
  have c9: "\<forall>r0 r1 r2. net url 0 = Response r0 \<and> net url 1 = Response r1 \<and> net url 2 = Response r2
           \<and> status_failure r0 \<and> status_failure r1
           \<and> 200 \<le> status_code r2 \<and> status_code r2 < 300 \<longrightarrow>
           tr = \<lparr> attempts = 3, sleeps = [1, 2] \<rparr>
           \<and> res = response_content env self raw r2"
    using s2 by (intro allI impI)
  show ?thesis
    by (intro conjI c1 c2 c3 c4 c5 c6 c7 c8 c9)
qed


lemma sample_format_content:
  "format_content sample_env sample_self ''berlin'' = Inr sample_forecast"
proof -
  have "loads sample_env ''berlin'' = Inr sample_payload"
    by (simp add: sample_env_def)
  then show ?thesis
    by (simp add: format_content_def sample_self_def sample_forecast_built)
qed

theorem fetch_url_retries_witness:
  "fetch_url sample_env sample_self net_500_500_200 ''u'' False 3
     = (\<lparr> attempts = 3, sleeps = [1, 2] \<rparr>, Inr (Forecast_result sample_forecast))
   \<and> fetch_url sample_env sample_self net_500 ''u'' False 3
     = (\<lparr> attempts = 3, sleeps = [1, 2] \<rparr>,
        Inl (HTTPStatusError (error_response\<lparr>status_code := 502\<rparr>)))
   \<and> attempts (fst (fetch_url sample_env sample_self net_500 ''u'' False 3)) \<le> 3"
proof -
  let ?run1 = "fetch_url sample_env sample_self net_500_500_200 ''u'' False 3"
  let ?run2 = "fetch_url sample_env sample_self net_500 ''u'' False 3"
  note P1 = fetch_url_retries[of sample_env sample_self net_500_500_200 "''u''" False
      "fst ?run1" "snd ?run1", OF surjective_pairing]
  note P2 = fetch_url_retries[of sample_env sample_self net_500 "''u''" False
      "fst ?run2" "snd ?run2", OF surjective_pairing]
  have f: "status_failure error_response" "status_failure (error_response\<lparr>status_code := 501\<rparr>)"
      "status_failure (error_response\<lparr>status_code := 502\<rparr>)"
    by (simp_all add: status_failure_def error_response_def)
  have h1: "net_500_500_200 ''u'' 0 = Response error_response
            \<and> net_500_500_200 ''u'' 1 = Response error_response
            \<and> net_500_500_200 ''u'' 2 = Response ok_response
            \<and> status_failure error_response \<and> status_failure error_response
            \<and> 200 \<le> status_code ok_response \<and> status_code ok_response < 300"
    using f by (simp add: net_500_500_200_def ok_response_def)
  have h2: "net_500 ''u'' 0 = Response error_response
            \<and> net_500 ''u'' 1 = Response (error_response\<lparr>status_code := 501\<rparr>)
            \<and> net_500 ''u'' 2 = Response (error_response\<lparr>status_code := 502\<rparr>)
            \<and> status_failure error_response
            \<and> status_failure (error_response\<lparr>status_code := 501\<rparr>)
            \<and> status_failure (error_response\<lparr>status_code := 502\<rparr>)"
    using f by (simp add: net_500_def error_response_def)
  note a = P1[THEN conjunct2, THEN conjunct2, THEN conjunct2, THEN conjunct2, THEN conjunct2,
      THEN conjunct2, THEN conjunct2, THEN conjunct2, THEN spec, THEN spec, THEN spec, THEN mp,
      OF h1]
  note b = P2[THEN conjunct2, THEN conjunct2, THEN conjunct2, THEN conjunct2, THEN conjunct2,
      THEN conjunct2, THEN conjunct2, THEN conjunct1, THEN spec, THEN spec, THEN spec, THEN mp,
      OF h2]
  note c = P2[THEN conjunct2, THEN conjunct1]
  have r: "response_content sample_env sample_self False ok_response
             = Inr (Forecast_result sample_forecast)"
    by (simp add: response_content_def ok_response_def sample_format_content)
  have 1: "?run1 = (\<lparr> attempts = 3, sleeps = [1, 2] \<rparr>, Inr (Forecast_result sample_forecast))"
    using a r by (simp add: prod_eq_iff)
  have 2: "?run2 = (\<lparr> attempts = 3, sleeps = [1, 2] \<rparr>,
                     Inl (HTTPStatusError (error_response\<lparr>status_code := 502\<rparr>)))"
    using b by (simp add: prod_eq_iff)
  show ?thesis
    by (intro conjI 1 2 c)
qed

text \<open>
  C4. When the first response is a 404 with text, \<^verbatim>\<open>_fetch_url\<close> sends this one GET,
  sleeps never, and returns what parsing the body gives (or raises what parsing
  raises, which is no \<^verbatim>\<open>HTTPStatusError\<close>): the same as for that response with status
  200.
\<close>

theorem fetch_url_404_with_text:
  assumes "net url 0 = Response r" "status_code r = 404" "response_text r \<noteq> []"
    and "0 < max_retries"
  shows "fetch_url env self net url raw max_retries
           = (\<lparr> attempts = 1, sleeps = [] \<rparr>, response_content env self raw r)
       \<and> attempt_body env self raw (Response r)
           = attempt_body env self raw (Response (r\<lparr>status_code := 200\<rparr>))
       \<and> (\<forall>r'. response_content env self raw r \<noteq> Inl (HTTPStatusError r'))"
proof -
  have ab: "attempt_body env self raw (net url 0) = response_content env self raw r"
    using assms(1,2,3) by (simp add: attempt_body_ok)
  have "fetch_loop env self net url raw max_retries [0 ..< max_retries]
          \<lparr> attempts = 0, sleeps = [] \<rparr>
        = (\<lparr> attempts = 1, sleeps = [] \<rparr>, response_content env self raw r)"
    using fetch_loop_step[OF assms(4), of env self net url raw "\<lparr> attempts = 0, sleeps = [] \<rparr>"]
      response_content_not_status_error[of env self raw r]
    by (auto simp: ab split: sum.splits pyexn.splits)
  moreover have "attempt_body env self raw (Response (r\<lparr>status_code := 200\<rparr>))
                   = response_content env self raw r"
    by (simp add: attempt_body_ok response_content_def)
  moreover have "attempt_body env self raw (Response r) = response_content env self raw r"
    using assms(2,3) by (simp add: attempt_body_ok)
  ultimately show ?thesis
    using response_content_not_status_error[of env self raw r]
    by (simp add: fetch_url_def)
qed

theorem fetch_url_404_with_text_witness:
  "net_404_body ''u'' 0 = Response (ok_response\<lparr>status_code := 404\<rparr>)
   \<and> status_code (ok_response\<lparr>status_code := 404\<rparr>) = 404
   \<and> response_text (ok_response\<lparr>status_code := 404\<rparr>) \<noteq> []
   \<and> (0::nat) < 3
   \<and> fetch_url sample_env sample_self net_404_body ''u'' False 3
       = (\<lparr> attempts = 1, sleeps = [] \<rparr>, Inr (Forecast_result sample_forecast))"
proof -
  let ?r = "ok_response\<lparr>status_code := 404\<rparr>"
  have h: "net_404_body ''u'' 0 = Response ?r" "status_code ?r = 404" "response_text ?r \<noteq> []"
      "(0::nat) < 3"
    by (simp_all add: net_404_body_def ok_response_def)
  have r: "response_content sample_env sample_self False ?r = Inr (Forecast_result sample_forecast)"
    by (simp add: response_content_def ok_response_def sample_format_content)
  show ?thesis
    using fetch_url_404_with_text[where net = net_404_body and url = "''u''" and r = ?r
        and max_retries = 3 and env = sample_env and self = sample_self and raw = False, OF h]
      h r
    by simp
qed

end
